theory Spec2Isabelle
  imports Main "HOL-Library.Sublist"
begin

section \<open>Python values\<close>

text \<open>
  Both scripts build and inspect dynamically typed values: \<open>None\<close>, booleans, integers,
  strings, lists and dictionaries. \<open>JOther\<close> stands for an object of any other type (a
  datetime, say), named by its textual form; the scripts only test such an object for its
  type and its truth value. It counts as true, it has no method \<open>get\<close>, it cannot be
  iterated and it can be the key of a dictionary. A dictionary is an association list in
  insertion order, as a Python \<open>dict\<close> is.

  A Python string is a sequence of code points; \<open>string\<close> holds the code points below
  256, which covers every literal of the two scripts (\<open>CHR 0xE9\<close> is the e-acute of
  their Portuguese messages).
\<close>

datatype jv =
    JNull
  | JBool bool
  | JInt int
  | JStr string
  | JList "jv list"
  | JDict "(jv \<times> jv) list"
  | JOther string

section \<open>onvif\_discover.py\<close>

subsection \<open>String primitives\<close>

definition py_isspace :: "char \<Rightarrow> bool" where
  \<comment> \<open>\<open>str.isspace\<close> on one code point below 256\<close>
  "py_isspace c \<longleftrightarrow>
     c \<in> set [CHR 0x09, CHR 0x0A, CHR 0x0B, CHR 0x0C, CHR 0x0D, CHR 0x1C, CHR 0x1D,
               CHR 0x1E, CHR 0x1F, CHR 0x20, CHR 0x85, CHR 0xA0]"

definition strip :: "string \<Rightarrow> string" where
  \<comment> \<open>\<open>str.strip()\<close>\<close>
  "strip s = rev (dropWhile py_isspace (rev (dropWhile py_isspace s)))"

fun join :: "string \<Rightarrow> string list \<Rightarrow> string" where
  \<comment> \<open>\<open>sep.join(xs)\<close>\<close>
  "join sep [] = []"
| "join sep [x] = x"
| "join sep (x # y # ys) = x @ sep @ join sep (y # ys)"

subsection \<open>extract\_scope\_field\<close>

text \<open>
  \<^verbatim>\<open>m = re.search(re.escape(key) + r"/([^ ]+)", scope_str)\<close>
  \<^verbatim>\<open>return m.group(1) if m else None\<close>

  The pattern is the literal key, a slash, and a greedy non-empty run of characters other
  than the space U+0020, which is group 1. \<open>match_at\<close> is the match anchored at the start of
  its argument; \<open>re_search\<close> tries every start position from the left, the end of the string
  included, and stops at the first that matches.
\<close>

definition match_at :: "string \<Rightarrow> string \<Rightarrow> string option" where
  "match_at key s =
     (if prefix (key @ ''/'') s
      then (let v = takeWhile (\<lambda>c. c \<noteq> CHR '' '') (drop (length key + 1) s)
            in if v = [] then None else Some v)
      else None)"

fun re_search :: "string \<Rightarrow> string \<Rightarrow> string option" where
  "re_search key [] = match_at key []"
| "re_search key (c # cs) =
     (case match_at key (c # cs) of Some v \<Rightarrow> Some v | None \<Rightarrow> re_search key cs)"

definition extract_scope_field :: "string \<Rightarrow> string \<Rightarrow> string option" where
  "extract_scope_field scope_str key = re_search key scope_str"

subsection \<open>parse\_probe\_response\<close>

text \<open>
  An element of \<open>xml.etree.ElementTree\<close>: its tag in the form \<open>{namespace}local\<close>, its
  \<open>text\<close> attribute (\<open>None\<close> when the element has no text before its first child) and its
  children in document order.
\<close>

datatype element = Element (elem_tag: string) (elem_text: "string option") (elem_children: "element list")

text \<open>
  Exceptions, all of them subclasses of \<open>Exception\<close>, with the text that \<open>str(e)\<close> gives.
  The message of a \<open>ParseError\<close> is laid out by the parser as
  \<open>"<reason>: line <l>, column <c>"\<close>.
\<close>

datatype py_exn = ParseError string nat nat | AttributeError string | TypeError string | OtherError string

fun str_nat :: "nat \<Rightarrow> string" where
  "str_nat n = (if n < 10 then [''0123456789'' ! n]
                else str_nat (n div 10) @ [''0123456789'' ! (n mod 10)])"

declare str_nat.simps [simp del]

fun str_exn :: "py_exn \<Rightarrow> string" where
  "str_exn (ParseError reason l c) = reason @ '': line '' @ str_nat l @ '', column '' @ str_nat c"
| "str_exn (AttributeError m) = m"
| "str_exn (TypeError m) = m"
| "str_exn (OtherError m) = m"

definition ns_d :: string where
  "ns_d = ''http://schemas.xmlsoap.org/ws/2005/04/discovery''"

definition qname :: "string \<Rightarrow> string \<Rightarrow> string" where
  "qname uri local = ''{'' @ uri @ ''}'' @ local"

fun findall :: "string \<Rightarrow> element \<Rightarrow> element list" where
  \<comment> \<open>\<open>root.findall(".//d:<local>", ns)\<close> for the qualified tag \<open>t\<close>: every descendant of the
      element with that tag, in document order; the element itself is not a candidate\<close>
  "findall t (Element _ _ cs) =
     concat (map (\<lambda>c. (if elem_tag c = t then [c] else []) @ findall t c) cs)"

text \<open>
  The record \<open>info\<close>. The keys \<open>Scopes\<close> and \<open>XAddrs\<close> exist from the start; the others are
  added on the way, so each is an option: \<open>None\<close> is a key that is not in the dictionary,
  \<open>Some None\<close> the key bound to Python's \<open>None\<close>.
\<close>

record device_info =
  Scopes :: "string list"
  XAddrs :: "string list"
  Manufacturer :: "string option option"
  Model :: "string option option"
  Hardware :: "string option option"
  Location :: "string option option"
  error :: "string option"
  from_addr :: "string option"

fun append_xaddrs :: "element list \<Rightarrow> string list \<Rightarrow> string list \<times> py_exn option" where
  \<comment> \<open>\<open>for x in xaddrs: info["XAddrs"].append(x.text.strip())\<close>: the list as far as it got,
      and the exception that stopped the loop, if one did\<close>
  "append_xaddrs [] acc = (acc, None)"
| "append_xaddrs (x # xs) acc =
     (case elem_text x of
        None \<Rightarrow> (acc, Some (AttributeError
                  ([CHR 0x27] @ ''NoneType'' @ [CHR 0x27] @ '' object has no attribute '' @
                   [CHR 0x27] @ ''strip'' @ [CHR 0x27])))
      | Some t \<Rightarrow> append_xaddrs xs (acc @ [strip t]))"

definition parse_probe_response :: "(string \<Rightarrow> py_exn + element) \<Rightarrow> string \<Rightarrow> device_info" where
  "parse_probe_response fromstring xml_data =
     (let info = \<lparr>Scopes = [], XAddrs = [], Manufacturer = None, Model = None, Hardware = None,
                  Location = None, error = None, from_addr = None\<rparr>
      in case fromstring xml_data of
           Inl e \<Rightarrow> info\<lparr>error := Some (str_exn e)\<rparr>
         | Inr root \<Rightarrow>
             (let scopes = findall (qname ns_d ''Scopes'') root;
                  info1 = info\<lparr>Scopes := Scopes info @
                            map (\<lambda>s. strip (case elem_text s of None \<Rightarrow> [] | Some txt \<Rightarrow> txt)) scopes\<rparr>;
                  xaddrs = findall (qname ns_d ''XAddrs'') root
              in case append_xaddrs xaddrs (XAddrs info1) of
                   (xs, Some e) \<Rightarrow> info1\<lparr>XAddrs := xs, error := Some (str_exn e)\<rparr>
                 | (xs, None) \<Rightarrow>
                     (let info2 = info1\<lparr>XAddrs := xs\<rparr>;
                          all_scopes = join '' '' (Scopes info2)
                      in info2\<lparr>Manufacturer := Some (extract_scope_field all_scopes ''onvif://www.onvif.org/name''),
                               Model := Some (extract_scope_field all_scopes ''onvif://www.onvif.org/model''),
                               Hardware := Some (extract_scope_field all_scopes ''onvif://www.onvif.org/hardware''),
                               Location := Some (extract_scope_field all_scopes ''onvif://www.onvif.org/location'')\<rparr>)))"

subsection \<open>The probe and the receive loop\<close>

definition MULTICAST_GROUP :: string where
  "MULTICAST_GROUP = ''239.255.255.250''"

definition PORT :: nat where
  "PORT = 3702"

definition TIMEOUT :: nat where
  "TIMEOUT = 5"

definition nl :: string where
  "nl = [CHR 0x0A]"

text \<open>
  \<open>PROBE_MESSAGE\<close> is a module-level f-string: Python evaluates it, and the call
  \<open>uuid.uuid4()\<close> inside it, once, when the module is loaded. The definition takes the UUID
  that this call returned.
\<close>

definition PROBE_MESSAGE :: "string \<Rightarrow> string" where
  \<open>PROBE_MESSAGE uuid =
     ''<?xml version="1.0" encoding="utf-8"?>'' @ nl @
     ''<e:Envelope xmlns:e="http://www.w3.org/2003/05/soap-envelope"'' @ nl @
     ''            xmlns:w="http://schemas.xmlsoap.org/ws/2004/08/addressing"'' @ nl @
     ''            xmlns:d="http://schemas.xmlsoap.org/ws/2005/04/discovery">'' @ nl @
     ''  <e:Header>'' @ nl @
     ''    <w:MessageID>uuid:'' @ uuid @ ''</w:MessageID>'' @ nl @
     ''    <w:To>urn:schemas-xmlsoap-org:ws:2005:04:discovery</w:To>'' @ nl @
     ''    <w:Action>http://schemas.xmlsoap.org/ws/2005/04/discovery/Probe</w:Action>'' @ nl @
     ''  </e:Header>'' @ nl @
     ''  <e:Body>'' @ nl @
     ''    <d:Probe>'' @ nl @
     ''      <d:Types>dn:NetworkVideoTransmitter</d:Types>'' @ nl @
     ''    </d:Probe>'' @ nl @
     ''  </e:Body>'' @ nl @
     ''</e:Envelope>'' @ nl\<close>

text \<open>
  The state of the Python process that the discovery script touches: how many times
  \<open>uuid.uuid4()\<close> has been called (the \<open>n\<close>-th call returns \<open>src n\<close>, where \<open>src\<close> is the
  process's source of UUIDs), and the datagrams sent so far, each with its destination.
\<close>

record process =
  uuid_calls :: nat
  wire :: "(string \<times> string \<times> nat) list"

definition uuid4 :: "(nat \<Rightarrow> string) \<Rightarrow> process \<Rightarrow> string \<times> process" where
  "uuid4 src p = (src (uuid_calls p), p\<lparr>uuid_calls := Suc (uuid_calls p)\<rparr>)"

definition load_module :: "(nat \<Rightarrow> string) \<Rightarrow> process \<Rightarrow> string \<times> process" where
  \<comment> \<open>importing the module binds \<open>PROBE_MESSAGE\<close>\<close>
  "load_module src p = (case uuid4 src p of (u, p') \<Rightarrow> (PROBE_MESSAGE u, p'))"

text \<open>
  What one call of \<open>sock.recvfrom(65507)\<close> meets, on a socket whose timeout was set once by
  \<open>sock.settimeout(timeout)\<close>. Time is counted in ticks of any fixed length.
  \<^item> \<open>Datagram d data addr\<close>: the next datagram is there \<open>d\<close> ticks after the call began;
    \<open>data\<close> is its payload as \<open>data.decode(errors="ignore")\<close> reads it, \<open>addr\<close> the sender's
    host.
  \<^item> \<open>RecvError d msg\<close>: after \<open>d\<close> ticks the call raises an error other than a timeout.
  \<^item> \<open>Silence\<close>: nothing arrives any more.
  The network is the sequence of what the successive calls meet.

  With a positive timeout the socket blocks: a call that has met nothing when \<open>timeout\<close>
  ticks have passed raises \<open>socket.timeout\<close>. With the timeout 0 the socket does not block:
  a call returns the datagram that is there already, and otherwise raises at once, with
  \<open>BlockingIOError\<close> when nothing is there; that is no \<open>socket.timeout\<close>.
\<close>

datatype recv_event = Datagram nat string string | RecvError nat string | Silence

text \<open>
  The \<open>while True\<close> loop. Its state is the list \<open>results\<close> and the time spent so far in
  receive calls. Only \<open>socket.timeout\<close> leaves the loop; every other exception is printed
  and the loop goes on, so on a socket that does not block the loop goes on whatever the
  call meets. The loop may run forever, so it returns an option. What the script prints is
  left out.
\<close>

partial_function (option) recv_loop ::
  "(string \<Rightarrow> py_exn + element) \<Rightarrow> nat \<Rightarrow> (nat \<Rightarrow> recv_event) \<Rightarrow> nat \<Rightarrow>
   device_info list \<times> nat \<Rightarrow> (device_info list \<times> nat) option" where
  "recv_loop fromstring timeout net i st =
     (if timeout = 0 then
        (case net i of
           Datagram d xml_data addr \<Rightarrow>
             if d = 0
             then recv_loop fromstring timeout net (Suc i)
                    (fst st @ [(parse_probe_response fromstring xml_data)\<lparr>from_addr := Some addr\<rparr>],
                     snd st)
             else recv_loop fromstring timeout net (Suc i) st
         | RecvError d msg \<Rightarrow> recv_loop fromstring timeout net (Suc i) st
         | Silence \<Rightarrow> recv_loop fromstring timeout net (Suc i) st)
      else
        (case net i of
           Datagram d xml_data addr \<Rightarrow>
             if d < timeout
             then recv_loop fromstring timeout net (Suc i)
                    (fst st @ [(parse_probe_response fromstring xml_data)\<lparr>from_addr := Some addr\<rparr>],
                     snd st + d)
             else Some (fst st, snd st + timeout)
         | RecvError d msg \<Rightarrow>
             if d < timeout
             then recv_loop fromstring timeout net (Suc i) (fst st, snd st + d)
             else Some (fst st, snd st + timeout)
         | Silence \<Rightarrow> Some (fst st, snd st + timeout)))"

definition discover_onvif_devices ::
  "string \<Rightarrow> (string \<Rightarrow> py_exn + element) \<Rightarrow> nat \<Rightarrow> (nat \<Rightarrow> recv_event) \<Rightarrow> process \<Rightarrow>
   (device_info list \<times> nat \<times> process) option" where
  \<comment> \<open>the first argument is the module's \<open>PROBE_MESSAGE\<close>; the result is the list the function
      returns, the time its receive loop took, and the process afterwards\<close>
  "discover_onvif_devices probe_message fromstring timeout net p =
     (let p1 = p\<lparr>wire := wire p @ [(probe_message, MULTICAST_GROUP, PORT)]\<rparr>
      in case recv_loop fromstring timeout net 0 ([], 0) of
           None \<Rightarrow> None
         | Some (results, elapsed) \<Rightarrow> Some (results, elapsed, p1))"

text \<open>
  A process that loads the module and then calls \<open>discover_onvif_devices\<close> once for each
  element of \<open>calls\<close> (a timeout and the network that this call meets); the result is the
  payloads it sent, in order.
\<close>

fun invocations ::
  "string \<Rightarrow> (string \<Rightarrow> py_exn + element) \<Rightarrow> (nat \<times> (nat \<Rightarrow> recv_event)) list \<Rightarrow> process \<Rightarrow>
   process option" where
  "invocations probe_message fromstring [] p = Some p"
| "invocations probe_message fromstring (call # calls) p =
     (case discover_onvif_devices probe_message fromstring (fst call) (snd call) p of
        None \<Rightarrow> None
      | Some (results, elapsed, p') \<Rightarrow> invocations probe_message fromstring calls p')"

definition run_process ::
  "(nat \<Rightarrow> string) \<Rightarrow> (string \<Rightarrow> py_exn + element) \<Rightarrow> (nat \<times> (nat \<Rightarrow> recv_event)) list \<Rightarrow>
   string list option" where
  "run_process src fromstring calls =
     (case load_module src \<lparr>uuid_calls = 0, wire = []\<rparr> of
        (probe_message, p0) \<Rightarrow>
          (case invocations probe_message fromstring calls p0 of
             None \<Rightarrow> None
           | Some p \<Rightarrow> Some (map fst (wire p))))"

text \<open>
  When one receive call returns: \<open>Some d\<close> after \<open>d\<close> ticks, with a datagram or an error
  other than a timeout; \<open>None\<close> when the call runs into the timeout.
\<close>

fun returns_after :: "nat \<Rightarrow> recv_event \<Rightarrow> nat option" where
  "returns_after timeout (Datagram d xml_data addr) = (if d < timeout then Some d else None)"
| "returns_after timeout (RecvError d msg) = (if d < timeout then Some d else None)"
| "returns_after timeout Silence = None"

section \<open>onvif\_info.py\<close>

subsection \<open>Truth values and dictionaries\<close>

fun truthy :: "jv \<Rightarrow> bool" where
  "truthy JNull = False"
| "truthy (JBool b) = b"
| "truthy (JInt i) = (i \<noteq> 0)"
| "truthy (JStr s) = (s \<noteq> [])"
| "truthy (JList xs) = (xs \<noteq> [])"
| "truthy (JDict d) = (d \<noteq> [])"
| "truthy (JOther r) = True"

definition py_or :: "jv \<Rightarrow> jv \<Rightarrow> jv" where
  \<comment> \<open>\<open>a or b\<close>, for operands whose evaluation cannot raise\<close>
  "py_or a b = (if truthy a then a else b)"

fun key_norm :: "jv \<Rightarrow> jv" where
  \<comment> \<open>as dictionary keys, \<open>True\<close> is \<open>1\<close> and \<open>False\<close> is \<open>0\<close>\<close>
  "key_norm (JBool b) = JInt (if b then 1 else 0)"
| "key_norm v = v"

fun hashable :: "jv \<Rightarrow> bool" where
  "hashable (JList xs) = False"
| "hashable (JDict d) = False"
| "hashable v = True"

fun type_name :: "jv \<Rightarrow> string" where
  "type_name JNull = ''NoneType''"
| "type_name (JBool b) = ''bool''"
| "type_name (JInt i) = ''int''"
| "type_name (JStr s) = ''str''"
| "type_name (JList xs) = ''list''"
| "type_name (JDict d) = ''dict''"
| "type_name (JOther r) = ''object''"

definition no_get :: "jv \<Rightarrow> py_exn" where
  "no_get x = AttributeError ([CHR 0x27] @ type_name x @ [CHR 0x27] @ '' object has no attribute '' @
                              [CHR 0x27] @ ''get'' @ [CHR 0x27])"

definition unhashable :: "jv \<Rightarrow> py_exn" where
  "unhashable k = TypeError (''unhashable type: '' @ [CHR 0x27] @ type_name k @ [CHR 0x27])"

fun dict_get :: "(jv \<times> jv) list \<Rightarrow> jv \<Rightarrow> jv option" where
  "dict_get [] k = None"
| "dict_get ((k', v) # d) k = (if key_norm k' = key_norm k then Some v else dict_get d k)"

fun dict_set :: "(jv \<times> jv) list \<Rightarrow> jv \<Rightarrow> jv \<Rightarrow> (jv \<times> jv) list" where
  \<comment> \<open>\<open>d[k] = v\<close> for a hashable \<open>k\<close>: a known key keeps its place\<close>
  "dict_set [] k v = [(k, v)]"
| "dict_set ((k', v') # d) k v =
     (if key_norm k' = key_norm k then (k', v) # d else (k', v') # dict_set d k v)"

definition py_get :: "jv \<Rightarrow> jv \<Rightarrow> jv \<Rightarrow> jv option" where
  \<comment> \<open>\<open>x.get(k, default)\<close>; \<open>None\<close> is the \<open>AttributeError\<close> of a receiver that is no
      dictionary\<close>
  "py_get x k dflt =
     (case x of
        JDict d \<Rightarrow> Some (case dict_get d k of None \<Rightarrow> dflt | Some v \<Rightarrow> v)
      | _ \<Rightarrow> None)"

fun py_iter :: "jv \<Rightarrow> jv list option" where
  \<comment> \<open>the items of \<open>for p in x\<close>; \<open>None\<close> is the \<open>TypeError\<close> of a value that cannot be
      iterated\<close>
  "py_iter (JList xs) = Some xs"
| "py_iter (JStr s) = Some (map (\<lambda>c. JStr [c]) s)"
| "py_iter (JDict d) = Some (map fst d)"
| "py_iter v = None"

subsection \<open>The device and the libraries\<close>

text \<open>
  The camera is reached through the \<open>onvif\<close> package and results are normalised by \<open>zeep\<close>
  and \<open>json\<close>; none of them is part of the script, so they are parameters. For the length
  of one run the device is a fixed oracle: asking it the same thing again gives the same
  answer.
  \<^item> A method of a service takes its arguments and returns an object of type \<open>'o\<close> or
    raises.
  \<^item> A service is what \<open>getattr(service, name)\<close> gives: a method, or an exception.
  \<^item> \<open>ONVIFCamera\<close> has the attribute \<open>devicemgmt\<close> and one factory per service; each
    gives a service or raises. The keys of \<open>SERVICE_METHODS\<close> are distinct, so the catalogue
    calls each factory once at most. \<open>create_media_service\<close> alone is called a second time,
    for the stream addresses (line 216), and the second call need not end as the first
    did: \<open>create_media_service cam n\<close> is what the call gives after \<open>n\<close> earlier calls.
\<close>

datatype call_args = NoArgs | Kwargs "(jv \<times> jv) list" | Positional jv

type_synonym 'o bound_method = "call_args \<Rightarrow> py_exn + 'o"

type_synonym 'o service = "string \<Rightarrow> py_exn + 'o bound_method"

record 'o ONVIFCamera =
  devicemgmt :: "py_exn + 'o service"
  create_media_service :: "nat \<Rightarrow> py_exn + 'o service"
  create_imaging_service :: "py_exn + 'o service"
  create_ptz_service :: "py_exn + 'o service"
  create_events_service :: "py_exn + 'o service"
  create_analytics_service :: "py_exn + 'o service"

text \<open>
  \<^item> \<open>serialize_object\<close> is \<open>zeep.helpers.serialize_object\<close>;
  \<^item> \<open>json_loads_dumps obj\<close> is \<open>json.loads(json.dumps(obj, default=lambda o: str(o)))\<close>;
  \<^item> \<open>str_of\<close> is \<open>str\<close> on a result object, which does not raise;
  \<^item> \<open>format_exc e\<close> is what \<open>traceback.format_exc()\<close> returns in the handler of \<open>e\<close>.
\<close>

record 'o lib =
  serialize_object :: "'o \<Rightarrow> py_exn + jv"
  json_loads_dumps :: "'o \<Rightarrow> py_exn + jv"
  str_of :: "'o \<Rightarrow> string"
  format_exc :: "py_exn \<Rightarrow> string"

subsection \<open>Configuration\<close>

definition IP :: string where
  "IP = ''192.168.1.68''"

definition ONVIF_PORT :: nat where
  \<comment> \<open>\<open>PORT\<close> of onvif\_info.py\<close>
  "ONVIF_PORT = 8899"

definition SERVICE_METHODS :: "(string \<times> (string \<times> (jv \<times> jv) list) list) list" where
  "SERVICE_METHODS =
     [(''device'',
         [(''GetServices'', [(JStr ''IncludeCapability'', JBool True)]),
          (''GetDeviceInformation'', []),
          (''GetSystemDateAndTime'', []),
          (''GetCapabilities'', [(JStr ''Category'', JStr ''All'')]),
          (''GetScopes'', []),
          (''GetHostname'', []),
          (''GetNetworkInterfaces'', []),
          (''GetNetworkProtocols'', []),
          (''GetNTP'', []),
          (''GetUsers'', [])]),
      (''media'',
         [(''GetProfiles'', []),
          (''GetServiceCapabilities'', [])]),
      (''imaging'',
         [(''GetServiceCapabilities'', []),
          (''GetImagingSettings'', [])]),
      (''ptz'',
         [(''GetServiceCapabilities'', []),
          (''GetNodes'', [])]),
      (''events'',
         [(''GetServiceCapabilities'', [])])]"

subsection \<open>safe\_call and serialize\_obj\<close>

definition serialize_obj :: "'o lib \<Rightarrow> 'o \<Rightarrow> jv" where
  "serialize_obj lib obj =
     (case serialize_object lib obj of
        Inr v \<Rightarrow> v
      | Inl _ \<Rightarrow>
          (case json_loads_dumps lib obj of
             Inr v \<Rightarrow> v
           | Inl _ \<Rightarrow> JStr (str_of lib obj)))"

definition not_found :: string where
  "not_found = ''m'' @ [CHR 0xE9] @ ''todo n'' @ [CHR 0xE3] @ ''o encontrado: ''"

definition failure :: "'o lib \<Rightarrow> py_exn \<Rightarrow> jv" where
  \<comment> \<open>\<open>{"error": str(e), "traceback": traceback.format_exc()}\<close>\<close>
  "failure lib e = JDict [(JStr ''error'', JStr (str_exn e)), (JStr ''traceback'', JStr (format_exc lib e))]"

definition safe_call :: "'o lib \<Rightarrow> 'o service \<Rightarrow> string \<Rightarrow> (jv \<times> jv) list \<Rightarrow> jv" where
  "safe_call lib service method_name args =
     (case service method_name of
        Inl e \<Rightarrow> JDict [(JStr ''error'', JStr (not_found @ method_name)), (JStr ''exc'', JStr (str_exn e))]
      | Inr method \<Rightarrow>
          (case (if args \<noteq> [] then method (Kwargs args) else method NoArgs) of
             Inr res \<Rightarrow> JDict [(JStr ''result'', serialize_obj lib res)]
           | Inl e \<Rightarrow> failure lib e))"

subsection \<open>main\<close>

text \<open>
  \<open>summary\<close> is the report; its keys \<open>stream_uris\<close> and \<open>device_info_summary\<close> are added
  late, so they are options. \<open>token_context\<close> is the dictionary \<open>context\<close> of the tokens
  found on the way.
\<close>

record summary =
  target :: string
  services :: "(jv \<times> jv) list"
  errors :: "jv list"
  stream_uris :: "(jv \<times> jv) list option"
  device_info_summary :: "jv option"

record token_context =
  profiles :: "jv list"
  video_source_tokens :: "jv list"

definition stage_error :: "'o lib \<Rightarrow> string \<Rightarrow> py_exn \<Rightarrow> jv" where
  \<comment> \<open>\<open>{"stage": stage, "error": str(e), "traceback": traceback.format_exc()}\<close>\<close>
  "stage_error lib stage e =
     JDict [(JStr ''stage'', JStr stage), (JStr ''error'', JStr (str_exn e)),
            (JStr ''traceback'', JStr (format_exc lib e))]"

definition service_creators :: "'o ONVIFCamera \<Rightarrow> string \<Rightarrow> (py_exn + 'o service) option" where
  "service_creators cam =
     map_of [(''device'', devicemgmt cam),
             (''media'', create_media_service cam 0),
             (''imaging'', create_imaging_service cam),
             (''ptz'', create_ptz_service cam),
             (''events'', create_events_service cam),
             (''analytics'', create_analytics_service cam)]"

text \<open>Lines 141 to 150: the profiles of a \<open>GetProfiles\<close> outcome.\<close>

definition extract_profiles :: "jv \<Rightarrow> jv" where
  "extract_profiles out =
     (let profiles =
        (case py_get out (JStr ''result'') JNull of
           None \<Rightarrow> JList []
         | Some a \<Rightarrow>
             (case (if truthy a then Some a else py_get out (JStr ''result'') (JList [])) of
                None \<Rightarrow> JList []
              | Some (JDict pd) \<Rightarrow>
                  (case dict_get pd (JStr ''Profile'') of
                     Some inner \<Rightarrow> inner
                   | None \<Rightarrow> JDict pd)
              | Some other \<Rightarrow> other))
      in case profiles of JDict pd \<Rightarrow> JList [JDict pd] | _ \<Rightarrow> profiles)"

text \<open>Lines 154 to 158: the token of one profile, \<open>None\<close> when the lookup raises.\<close>

definition profile_token :: "jv \<Rightarrow> jv" where
  "profile_token p =
     (case py_get p (JStr ''token'') JNull of
        None \<Rightarrow> JNull
      | Some a \<Rightarrow>
          if truthy a then a
          else (case py_get p (JStr ''@token'') JNull of
                  None \<Rightarrow> JNull
                | Some b \<Rightarrow>
                    if truthy b then b
                    else (case py_get p (JStr ''token'') JNull of None \<Rightarrow> JNull | Some c \<Rightarrow> c)))"

fun profile_tokens :: "jv list \<Rightarrow> jv list" where
  \<comment> \<open>the loop of lines 153 to 160\<close>
  "profile_tokens [] = []"
| "profile_tokens (p # ps) =
     (let t = profile_token p in if truthy t then t # profile_tokens ps else profile_tokens ps)"

text \<open>Lines 180 to 188: the video source token of one profile.\<close>

definition vs_token_of :: "jv \<Rightarrow> jv" where
  "vs_token_of p =
     (case p of
        JDict d \<Rightarrow>
          (let vsc = py_or (case dict_get d (JStr ''VideoSourceConfiguration'') of None \<Rightarrow> JNull | Some v \<Rightarrow> v)
                           (case dict_get d (JStr ''VideoSourceConfiguration'') of None \<Rightarrow> JDict [] | Some v \<Rightarrow> v)
           in case py_get vsc (JStr ''SourceToken'') JNull of
                None \<Rightarrow> JNull
              | Some a \<Rightarrow>
                  if truthy a then a
                  else (case py_get vsc (JStr ''Token'') JNull of None \<Rightarrow> JNull | Some b \<Rightarrow> b))
      | _ \<Rightarrow> JNull)"

fun vs_tokens :: "jv list \<Rightarrow> jv list" where
  \<comment> \<open>the loop of lines 179 to 191\<close>
  "vs_tokens [] = []"
| "vs_tokens (p # ps) =
     (let t = vs_token_of p in if truthy t then t # vs_tokens ps else vs_tokens ps)"

text \<open>
  Lines 166 to 193: the tokens for \<open>GetImagingSettings\<close>. The list is the one stored in the
  context, so what is appended to it stays there. Line 172 is outside every \<open>try\<close>: a
  \<open>med\<close> that is true and no dictionary ends the run.
\<close>

definition derive_tokens :: "summary \<Rightarrow> token_context \<Rightarrow> py_exn + jv list" where
  "derive_tokens summ ctx =
     (let tokens = video_source_tokens ctx
      in if tokens \<noteq> [] then Inr tokens
         else
           (let med = (case dict_get (services summ) (JStr ''media_GetProfiles'') of
                         None \<Rightarrow> JDict [] | Some v \<Rightarrow> v)
            in case (if truthy med then py_get med (JStr ''result'') JNull else Some JNull) of
                 None \<Rightarrow> Inl (no_get med)
               | Some profiles_data \<Rightarrow>
                   if truthy profiles_data
                   then
                     (let p_list =
                        (case profiles_data of
                           JList xs \<Rightarrow> JList xs
                         | JDict pd \<Rightarrow> (case dict_get pd (JStr ''Profile'') of None \<Rightarrow> JNull | Some v \<Rightarrow> v)
                         | _ \<Rightarrow> JList []);
                          p_list' = (case p_list of JDict d \<Rightarrow> JList [JDict d] | _ \<Rightarrow> p_list)
                      in case py_iter p_list' of
                           None \<Rightarrow> Inr tokens
                         | Some ps \<Rightarrow> Inr (tokens @ vs_tokens ps))
                   else Inr tokens))"

fun imaging_entries :: "'o lib \<Rightarrow> 'o service \<Rightarrow> string \<Rightarrow> jv list \<Rightarrow> py_exn + jv list" where
  \<comment> \<open>the loop of lines 196 to 198; \<open>{t: out}\<close> raises for a token that cannot be a key\<close>
  "imaging_entries lib service method [] = Inr []"
| "imaging_entries lib service method (t # ts) =
     (let out = safe_call lib service method [(JStr ''VideoSourceToken'', t)]
      in if hashable t
         then (case imaging_entries lib service method ts of
                 Inl e \<Rightarrow> Inl e
               | Inr rest \<Rightarrow> Inr (JDict [(t, out)] # rest))
         else Inl (unhashable t))"

definition no_token_note :: string where
  "no_token_note = ''requer VideoSourceToken; n'' @ [CHR 0xE3] @ ''o encontrado automaticamente''"

text \<open>
  One iteration of the loop over \<open>calls\<close> (lines 135 to 209), on the state
  \<open>(svc_result, context, summary)\<close>. \<open>Inl\<close> is an exception that nothing catches.
\<close>

definition run_call ::
  "'o lib \<Rightarrow> string \<Rightarrow> 'o service \<Rightarrow> string \<times> (jv \<times> jv) list \<Rightarrow>
   (jv \<times> jv) list \<times> token_context \<times> summary \<Rightarrow> py_exn + (jv \<times> jv) list \<times> token_context \<times> summary" where
  "run_call lib svc_name service call st =
     (case call of (method, args) \<Rightarrow>
      case st of (svc_result, ctx, summ) \<Rightarrow>
        if svc_name = ''media'' \<and> method = ''GetProfiles'' then
          (let out = safe_call lib service method args;
               svc_result' = dict_set svc_result (JStr method) out
           in Inr (svc_result',
                   (case extract_profiles out of
                      JList ps \<Rightarrow> ctx\<lparr>profiles := profile_tokens ps\<rparr>
                    | _ \<Rightarrow> ctx),
                   summ))
        else if svc_name = ''imaging'' \<and> method = ''GetImagingSettings'' then
          (case derive_tokens summ ctx of
             Inl e \<Rightarrow> Inl e
           | Inr tokens \<Rightarrow>
               (let ctx' = ctx\<lparr>video_source_tokens := tokens\<rparr>
                in if tokens \<noteq> [] then
                     (case imaging_entries lib service method tokens of
                        Inl e \<Rightarrow> Inl e
                      | Inr entries \<Rightarrow>
                          (let svc_result' = dict_set svc_result (JStr method) (JList entries)
                           in Inr (svc_result', ctx',
                                   summ\<lparr>services := dict_set (services summ) (JStr svc_name) (JDict svc_result')\<rparr>)))
                   else
                     (let svc_result' = dict_set svc_result (JStr method)
                                          (JDict [(JStr ''note'', JStr no_token_note)])
                      in Inr (svc_result', ctx',
                              summ\<lparr>services := dict_set (services summ) (JStr svc_name) (JDict svc_result')\<rparr>))))
        else Inr (dict_set svc_result (JStr method) (safe_call lib service method args), ctx, summ))"

fun run_calls ::
  "'o lib \<Rightarrow> string \<Rightarrow> 'o service \<Rightarrow> (string \<times> (jv \<times> jv) list) list \<Rightarrow>
   (jv \<times> jv) list \<times> token_context \<times> summary \<Rightarrow> py_exn + (jv \<times> jv) list \<times> token_context \<times> summary" where
  "run_calls lib svc_name service [] st = Inr st"
| "run_calls lib svc_name service (call # calls) st =
     (case run_call lib svc_name service call st of
        Inl e \<Rightarrow> Inl e
      | Inr st' \<Rightarrow> run_calls lib svc_name service calls st')"

definition not_implemented_note :: string where
  "not_implemented_note = ''servi'' @ [CHR 0xE7] @ ''o n'' @ [CHR 0xE3] @ ''o implementado no script''"

definition create_failed :: string where
  "create_failed = ''falha ao criar servi'' @ [CHR 0xE7] @ ''o ''"

definition creation_failure :: "'o lib \<Rightarrow> string \<Rightarrow> py_exn \<Rightarrow> jv" where
  \<comment> \<open>\<open>svc_result\<close> after lines 130 and 131\<close>
  "creation_failure lib svc_name e =
     JDict [(JStr ''error'', JStr (create_failed @ svc_name @ '': '' @ str_exn e)),
            (JStr ''traceback'', JStr (format_exc lib e))]"

text \<open>One iteration of the loop over \<open>SERVICE_METHODS.items()\<close> (lines 120 to 211).\<close>

definition run_service ::
  "'o lib \<Rightarrow> 'o ONVIFCamera \<Rightarrow> string \<times> (string \<times> (jv \<times> jv) list) list \<Rightarrow>
   token_context \<times> summary \<Rightarrow> py_exn + token_context \<times> summary" where
  "run_service lib cam entry st =
     (case entry of (svc_name, calls) \<Rightarrow>
      case st of (ctx, summ) \<Rightarrow>
        (case service_creators cam svc_name of
           None \<Rightarrow>
             Inr (ctx, summ\<lparr>services := dict_set (services summ) (JStr svc_name)
                                          (JDict [(JStr ''note'', JStr not_implemented_note)])\<rparr>)
         | Some (Inl e) \<Rightarrow>
             Inr (ctx, summ\<lparr>services := dict_set (services summ) (JStr svc_name)
                                          (creation_failure lib svc_name e)\<rparr>)
         | Some (Inr service) \<Rightarrow>
             (case run_calls lib svc_name service calls ([], ctx, summ) of
                Inl e \<Rightarrow> Inl e
              | Inr (svc_result, ctx', summ') \<Rightarrow>
                  Inr (ctx', summ'\<lparr>services := dict_set (services summ') (JStr svc_name) (JDict svc_result)\<rparr>))))"

fun catalog_pass ::
  "'o lib \<Rightarrow> 'o ONVIFCamera \<Rightarrow> (string \<times> (string \<times> (jv \<times> jv) list) list) list \<Rightarrow>
   token_context \<times> summary \<Rightarrow> py_exn + token_context \<times> summary" where
  "catalog_pass lib cam [] st = Inr st"
| "catalog_pass lib cam (entry # entries) st =
     (case run_service lib cam entry st of
        Inl e \<Rightarrow> Inl e
      | Inr st' \<Rightarrow> catalog_pass lib cam entries st')"

text \<open>Lines 98 to 103.\<close>

definition get_services_stage :: "'o lib \<Rightarrow> 'o ONVIFCamera \<Rightarrow> summary \<Rightarrow> summary" where
  "get_services_stage lib cam summ =
     (case devicemgmt cam of
        Inl e \<Rightarrow> summ\<lparr>errors := errors summ @ [stage_error lib ''get_services'' e]\<rparr>
      | Inr dev_service \<Rightarrow>
          summ\<lparr>services := dict_set (services summ) (JStr ''device_GetServices'')
                             (safe_call lib dev_service ''GetServices'' [(JStr ''IncludeCapability'', JBool True)])\<rparr>)"

text \<open>
  Lines 214 to 226. The media service is created anew, by the second call of the factory.
  An assignment \<open>stream_map[token] = ...\<close> with a token that cannot be a
  key raises \<open>TypeError\<close>, in the \<open>try\<close> and again in its handler, and so leaves the loop
  for the outer handler.
\<close>

definition stream_request :: "jv \<Rightarrow> jv" where
  "stream_request token =
     JDict [(JStr ''StreamSetup'',
               JDict [(JStr ''Stream'', JStr ''RTP-Unicast''),
                      (JStr ''Transport'', JDict [(JStr ''Protocol'', JStr ''RTSP'')])]),
            (JStr ''ProfileToken'', token)]"

definition stream_entry :: "'o lib \<Rightarrow> 'o service \<Rightarrow> jv \<Rightarrow> jv" where
  "stream_entry lib media token =
     (case media ''GetStreamUri'' of
        Inl e \<Rightarrow> failure lib e
      | Inr method \<Rightarrow>
          (case method (Positional (stream_request token)) of
             Inl e \<Rightarrow> failure lib e
           | Inr uri_resp \<Rightarrow> serialize_obj lib uri_resp))"

fun stream_loop :: "'o lib \<Rightarrow> 'o service \<Rightarrow> jv list \<Rightarrow> (jv \<times> jv) list \<Rightarrow> py_exn + (jv \<times> jv) list" where
  "stream_loop lib media [] stream_map = Inr stream_map"
| "stream_loop lib media (token # tokens) stream_map =
     (let entry = stream_entry lib media token
      in if hashable token
         then stream_loop lib media tokens (dict_set stream_map token entry)
         else Inl (unhashable token))"

definition stream_pass :: "'o lib \<Rightarrow> 'o ONVIFCamera \<Rightarrow> token_context \<Rightarrow> summary \<Rightarrow> summary" where
  "stream_pass lib cam ctx summ =
     (if profiles ctx \<noteq> [] then
        (case create_media_service cam 1 of
           Inl e \<Rightarrow> summ\<lparr>errors := errors summ @ [stage_error lib ''GetStreamUri'' e]\<rparr>
         | Inr media \<Rightarrow>
             (case stream_loop lib media (profiles ctx) [] of
                Inl e \<Rightarrow> summ\<lparr>errors := errors summ @ [stage_error lib ''GetStreamUri'' e]\<rparr>
              | Inr stream_map \<Rightarrow> summ\<lparr>stream_uris := Some stream_map\<rparr>))
      else summ)"

text \<open>Lines 229 to 233.\<close>

definition device_info_stage :: "summary \<Rightarrow> summary" where
  "device_info_stage summ =
     (case py_get (case dict_get (services summ) (JStr ''device'') of None \<Rightarrow> JDict [] | Some v \<Rightarrow> v)
                  (JStr ''GetDeviceInformation'') (JDict []) of
        None \<Rightarrow> summ
      | Some gdi \<Rightarrow> summ\<lparr>device_info_summary := Some gdi\<rparr>)"

text \<open>
  How a run of \<open>main\<close> ends: \<open>save_and_exit\<close> with the partial report and exit status 1,
  an exception that nothing catches, or the end of \<open>main\<close> with the report that is written
  to the JSON file. Writing the file and printing are left out. The argument
  \<open>onvif_camera\<close> is what the constructor \<open>ONVIFCamera(IP, PORT, USERNAME, PASSWORD)\<close> gives.
\<close>

datatype run = Exit1 summary | Crashed py_exn | Completed summary

definition initial_summary :: summary where
  \<comment> \<open>line 84\<close>
  "initial_summary = \<lparr>target = IP @ '':'' @ str_nat ONVIF_PORT, services = [], errors = [],
                       stream_uris = None, device_info_summary = None\<rparr>"

definition main :: "'o lib \<Rightarrow> py_exn + 'o ONVIFCamera \<Rightarrow> run" where
  "main lib onvif_camera =
     (let summ = initial_summary
      in case onvif_camera of
           Inl e \<Rightarrow> Exit1 (summ\<lparr>errors := errors summ @ [stage_error lib ''connect'' e]\<rparr>)
         | Inr cam \<Rightarrow>
             (case catalog_pass lib cam SERVICE_METHODS
                     (\<lparr>profiles = [], video_source_tokens = []\<rparr>, get_services_stage lib cam summ) of
                Inl e \<Rightarrow> Crashed e
              | Inr (ctx, summ') \<Rightarrow> Completed (device_info_stage (stream_pass lib cam ctx summ'))))"

section \<open>Notions used in the statements\<close>

text \<open>What one receive call that returned adds to \<open>results\<close>.\<close>

fun received :: "(string \<Rightarrow> py_exn + element) \<Rightarrow> recv_event \<Rightarrow> device_info list" where
  "received fromstring (Datagram d xml_data addr) =
     [(parse_probe_response fromstring xml_data)\<lparr>from_addr := Some addr\<rparr>]"
| "received fromstring (RecvError d msg) = []"
| "received fromstring Silence = []"

text \<open>
  What the catalogue pass leaves in the report for one service: the note of a service
  without a creator, the failure of the creator, or one entry for each configured call.
  The entry of \<open>GetImagingSettings\<close> is the note that no token was found, the entry of
  every other call is the outcome of \<open>safe_call\<close>.
\<close>

definition method_entry :: "'o lib \<Rightarrow> string \<Rightarrow> 'o service \<Rightarrow> string \<times> (jv \<times> jv) list \<Rightarrow> jv \<times> jv" where
  "method_entry lib svc_name service call =
     (JStr (fst call),
      if svc_name = ''imaging'' \<and> fst call = ''GetImagingSettings''
      then JDict [(JStr ''note'', JStr no_token_note)]
      else safe_call lib service (fst call) (snd call))"

definition service_report ::
  "'o lib \<Rightarrow> 'o ONVIFCamera \<Rightarrow> string \<times> (string \<times> (jv \<times> jv) list) list \<Rightarrow> jv" where
  "service_report lib cam entry =
     (case service_creators cam (fst entry) of
        None \<Rightarrow> JDict [(JStr ''note'', JStr not_implemented_note)]
      | Some (Inl e) \<Rightarrow> creation_failure lib (fst entry) e
      | Some (Inr service) \<Rightarrow> JDict (map (method_entry lib (fst entry) service) (snd entry)))"

definition catalog_entry :: "string \<Rightarrow> string \<times> (string \<times> (jv \<times> jv) list) list" where
  \<comment> \<open>the item of \<open>SERVICE_METHODS\<close> with this key\<close>
  "catalog_entry svc_name =
     (svc_name, case map_of SERVICE_METHODS svc_name of None \<Rightarrow> [] | Some calls \<Rightarrow> calls)"

definition report_services :: "'o lib \<Rightarrow> 'o ONVIFCamera \<Rightarrow> (jv \<times> jv) list \<Rightarrow> (jv \<times> jv) list" where
  "report_services lib cam base =
     foldl (\<lambda>d entry. dict_set d (JStr (fst entry)) (service_report lib cam entry)) base SERVICE_METHODS"

text \<open>
  Reading the report of a run that reached the end of \<open>main\<close>:
  \<open>summary["services"][svc_name]\<close>, \<open>summary["services"][svc_name][method]\<close>,
  \<open>summary["errors"]\<close> and \<open>summary["stream_uris"]\<close>.
\<close>

definition service_entry :: "run \<Rightarrow> string \<Rightarrow> jv option" where
  "service_entry r svc_name =
     (case r of Completed s \<Rightarrow> dict_get (services s) (JStr svc_name) | _ \<Rightarrow> None)"

definition report_entry :: "run \<Rightarrow> string \<Rightarrow> string \<Rightarrow> jv option" where
  "report_entry r svc_name method =
     (case service_entry r svc_name of
        Some (JDict d) \<Rightarrow> dict_get d (JStr method)
      | _ \<Rightarrow> None)"

definition run_errors :: "run \<Rightarrow> jv list option" where
  "run_errors r = (case r of Completed s \<Rightarrow> Some (errors s) | _ \<Rightarrow> None)"

definition run_stream_uris :: "run \<Rightarrow> (jv \<times> jv) list option" where
  "run_stream_uris r = (case r of Completed s \<Rightarrow> stream_uris s | _ \<Rightarrow> None)"

text \<open>The profile tokens that the catalogue pass leaves in the context.\<close>

definition found_profiles :: "'o lib \<Rightarrow> 'o ONVIFCamera \<Rightarrow> jv list" where
  "found_profiles lib cam =
     (case create_media_service cam 0 of
        Inl e \<Rightarrow> []
      | Inr media \<Rightarrow>
          (case extract_profiles (safe_call lib media ''GetProfiles'' []) of
             JList ps \<Rightarrow> profile_tokens ps
           | _ \<Rightarrow> []))"

section \<open>Concrete inputs\<close>

text \<open>A network on which nothing answers, and one on which three devices answer, four
  ticks apart.\<close>

definition quiet_net :: "nat \<Rightarrow> recv_event" where
  "quiet_net i = Silence"

definition busy_net :: "nat \<Rightarrow> recv_event" where
  "busy_net i = (if i < 3 then Datagram 4 ''<e:Envelope'' ''192.168.1.10'' else Silence)"

definition example_uuids :: "nat \<Rightarrow> string" where
  "example_uuids n = ''f81d4fae-7dec-41d0-a765-00a0c91e6bf'' @ str_nat n"

text \<open>
  A Probe-Match with one \<open>Scopes\<close> element and two \<open>XAddrs\<close> elements, the second of
  them empty, and the tree that \<open>ET.fromstring\<close> builds for it. \<open>example_fromstring\<close> is
  the parser on this document and on a truncated one.
\<close>

definition probe_match_doc :: string where
  \<open>probe_match_doc =
     ''<e:Envelope xmlns:e="http://www.w3.org/2003/05/soap-envelope" '' @
     ''xmlns:d="http://schemas.xmlsoap.org/ws/2005/04/discovery">'' @
     ''<e:Body><d:ProbeMatches><d:ProbeMatch>'' @
     ''<d:Scopes>onvif://www.onvif.org/name/Cam onvif://www.onvif.org/model/ABC123</d:Scopes>'' @
     ''<d:XAddrs>http://192.168.1.10/onvif/device_service</d:XAddrs>'' @
     ''<d:XAddrs/>'' @
     ''</d:ProbeMatch></d:ProbeMatches></e:Body></e:Envelope>''\<close>

definition probe_match_tree :: element where
  "probe_match_tree =
     Element ''{http://www.w3.org/2003/05/soap-envelope}Envelope'' None
       [Element ''{http://www.w3.org/2003/05/soap-envelope}Body'' None
          [Element ''{http://schemas.xmlsoap.org/ws/2005/04/discovery}ProbeMatches'' None
             [Element ''{http://schemas.xmlsoap.org/ws/2005/04/discovery}ProbeMatch'' None
                [Element ''{http://schemas.xmlsoap.org/ws/2005/04/discovery}Scopes''
                   (Some ''onvif://www.onvif.org/name/Cam onvif://www.onvif.org/model/ABC123'') [],
                 Element ''{http://schemas.xmlsoap.org/ws/2005/04/discovery}XAddrs''
                   (Some ''http://192.168.1.10/onvif/device_service'') [],
                 Element ''{http://schemas.xmlsoap.org/ws/2005/04/discovery}XAddrs'' None []]]]]"

definition example_fromstring :: "string \<Rightarrow> py_exn + element" where
  "example_fromstring xml_data =
     (if xml_data = probe_match_doc then Inr probe_match_tree
      else if xml_data = ''<e:Envelope'' then Inl (ParseError ''unclosed token'' 1 0)
      else Inl (ParseError ''syntax error'' 1 0))"

text \<open>
  Libraries that leave a result as it is, and services that know the operations of a
  table and answer each with a fixed value.
\<close>

definition example_lib :: "jv lib" where
  "example_lib =
     \<lparr>serialize_object = Inr, json_loads_dumps = Inr, str_of = (\<lambda>v. ''<object>''),
      format_exc = (\<lambda>e. ''Traceback (most recent call last): '' @ str_exn e)\<rparr>"

definition answering :: "(string \<times> jv) list \<Rightarrow> jv service" where
  "answering table name =
     (case map_of table name of
        None \<Rightarrow> Inl (AttributeError (''Service has no operation '' @ name))
      | Some v \<Rightarrow> Inr (\<lambda>args. Inr v))"

definition refusing :: "jv service" where
  \<comment> \<open>every operation exists and raises\<close>
  "refusing name = Inr (\<lambda>args. Inl (OtherError ''Sender not Authorized''))"

definition profile :: "string \<Rightarrow> string \<Rightarrow> jv" where
  "profile token source =
     JDict [(JStr ''Name'', JStr ''main''),
            (JStr ''VideoSourceConfiguration'', JDict [(JStr ''SourceToken'', JStr source)]),
            (JStr ''token'', JStr token)]"

text \<open>
  A camera with one profile, whose video source has the token \<open>VS1\<close>, and without PTZ;
  a camera with two profiles; and a camera with the same two profiles that gives its media
  service once and refuses it from then on.
\<close>

definition camera_one_profile :: "jv ONVIFCamera" where
  "camera_one_profile =
     \<lparr>devicemgmt = Inr (answering [(''GetDeviceInformation'', JDict [(JStr ''Model'', JStr ''ABC123'')])]),
      create_media_service =
        (\<lambda>n. Inr (answering [(''GetProfiles'', JList [profile ''P1'' ''VS1'']),
                             (''GetStreamUri'', JDict [(JStr ''Uri'', JStr ''rtsp://192.168.1.68/1'')])])),
      create_imaging_service = Inr (answering [(''GetImagingSettings'', JDict [(JStr ''Brightness'', JInt 50)])]),
      create_ptz_service = Inl (OtherError ''Device doesn`t support service: ptz''),
      create_events_service = Inr (answering []),
      create_analytics_service = Inr (answering [])\<rparr>"

definition media_two_profiles :: "jv service" where
  \<comment> \<open>two profiles; the stream address of the first only\<close>
  "media_two_profiles name =
     (if name = ''GetProfiles'' then Inr (\<lambda>args. Inr (JList [profile ''P1'' ''VS1'', profile ''P2'' ''VS1'']))
      else if name = ''GetStreamUri''
      then Inr (\<lambda>args. if args = Positional (stream_request (JStr ''P1''))
                        then Inr (JDict [(JStr ''Uri'', JStr ''rtsp://192.168.1.68/1'')])
                        else Inl (OtherError ''Profile token does not exist''))
      else Inl (AttributeError (''Service has no operation '' @ name)))"

definition camera_two_profiles :: "jv ONVIFCamera" where
  "camera_two_profiles =
     \<lparr>devicemgmt = Inr (answering []),
      create_media_service = (\<lambda>n. Inr media_two_profiles),
      create_imaging_service = Inr (answering []),
      create_ptz_service = Inr refusing,
      create_events_service = Inr (answering []),
      create_analytics_service = Inr (answering [])\<rparr>"

definition camera_media_once :: "jv ONVIFCamera" where
  "camera_media_once =
     \<lparr>devicemgmt = Inr (answering []),
      create_media_service =
        (\<lambda>n. if n = 0 then Inr media_two_profiles else Inl (OtherError ''Connection refused'')),
      create_imaging_service = Inr (answering []),
      create_ptz_service = Inr refusing,
      create_events_service = Inr (answering []),
      create_analytics_service = Inr (answering [])\<rparr>"

section \<open>Dictionaries\<close>

lemma dict_get_set:
  "dict_get (dict_set d k v) k' = (if key_norm k = key_norm k' then Some v else dict_get d k')"
  by (induction d) auto

lemma dict_set_set: "dict_set (dict_set d k v) k v' = dict_set d k v'"
  by (induction d) auto

section \<open>The discovery script\<close>

subsection \<open>The scope fields\<close>

lemma match_at_SomeD:
  assumes "match_at key s = Some v"
  shows "\<exists>rest. s = key @ ''/'' @ v @ rest \<and> v \<noteq> [] \<and> CHR '' '' \<notin> set v \<and> (rest = [] \<or> hd rest = CHR '' '')"
proof -
  from assms have p: "prefix (key @ ''/'') s"
    by (simp add: match_at_def split: if_splits)
  then obtain zs where s: "s = (key @ ''/'') @ zs"
    by (auto simp: prefix_def)
  have d: "drop (length key + 1) s = zs"
    using s by simp
  let ?P = "\<lambda>c. c \<noteq> CHR '' ''"
  from assms p d have v: "v = takeWhile ?P zs" and ne: "v \<noteq> []"
    by (auto simp: match_at_def Let_def split: if_splits)
  have "zs = v @ dropWhile ?P zs"
    using v by simp
  moreover have "CHR '' '' \<notin> set v"
    using v by (auto dest: set_takeWhileD)
  moreover have "dropWhile ?P zs = [] \<or> hd (dropWhile ?P zs) = CHR '' ''"
    using hd_dropWhile [of ?P zs] by auto
  ultimately show ?thesis
    using s ne by (intro exI [of _ "dropWhile ?P zs"]) auto
qed

lemma match_at_None_iff:
  "match_at key s = None \<longleftrightarrow> (\<forall>c rest. s = key @ ''/'' @ c # rest \<longrightarrow> c = CHR '' '')"
proof
  assume n: "match_at key s = None"
  show "\<forall>c rest. s = key @ ''/'' @ c # rest \<longrightarrow> c = CHR '' ''"
  proof (intro allI impI)
    fix c rest
    assume s: "s = key @ ''/'' @ c # rest"
    then have "prefix (key @ ''/'') s" and "drop (length key + 1) s = c # rest"
      by simp_all
    with n show "c = CHR '' ''"
      by (auto simp: match_at_def Let_def split: if_splits)
  qed
next
  assume a: "\<forall>c rest. s = key @ ''/'' @ c # rest \<longrightarrow> c = CHR '' ''"
  show "match_at key s = None"
  proof (cases "prefix (key @ ''/'') s")
    case False
    then show ?thesis by (simp add: match_at_def)
  next
    case True
    then obtain zs where s: "s = (key @ ''/'') @ zs"
      by (auto simp: prefix_def)
    have d: "drop (length key + 1) s = zs"
      using s by simp
    have "takeWhile (\<lambda>c. c \<noteq> CHR '' '') zs = []"
    proof (cases zs)
      case Nil
      then show ?thesis by simp
    next
      case (Cons c rest)
      with a s have "c = CHR '' ''" by simp
      with Cons show ?thesis by simp
    qed
    with True d show ?thesis
      by (simp add: match_at_def)
  qed
qed

lemma re_search_None_iff:
  "re_search key s = None \<longleftrightarrow> (\<forall>i\<le>length s. match_at key (drop i s) = None)"
proof (induction s)
  case Nil
  then show ?case by simp
next
  case (Cons c cs)
  show ?case
  proof (cases "match_at key (c # cs)")
    case None
    have "(\<forall>i\<le>length (c # cs). match_at key (drop i (c # cs)) = None) \<longleftrightarrow>
          (\<forall>i\<le>length cs. match_at key (drop i cs) = None)"
    proof
      assume h: "\<forall>i\<le>length (c # cs). match_at key (drop i (c # cs)) = None"
      show "\<forall>i\<le>length cs. match_at key (drop i cs) = None"
      proof (intro allI impI)
        fix i assume "i \<le> length cs"
        then have "match_at key (drop (Suc i) (c # cs)) = None" using h by (metis Suc_le_mono length_Cons)
        then show "match_at key (drop i cs) = None" by simp
      qed
    next
      assume h: "\<forall>i\<le>length cs. match_at key (drop i cs) = None"
      show "\<forall>i\<le>length (c # cs). match_at key (drop i (c # cs)) = None"
      proof (intro allI impI)
        fix i assume i: "i \<le> length (c # cs)"
        show "match_at key (drop i (c # cs)) = None"
        proof (cases i)
          case 0
          then show ?thesis using None by simp
        next
          case (Suc j)
          then show ?thesis using h i by simp
        qed
      qed
    qed
    with None Cons show ?thesis by simp
  next
    case (Some v)
    then have "\<not> (\<forall>i\<le>length (c # cs). match_at key (drop i (c # cs)) = None)"
      by (auto intro: exI [of _ 0])
    with Some show ?thesis by simp
  qed
qed

lemma re_search_SomeD:
  "re_search key s = Some v \<Longrightarrow>
   \<exists>i\<le>length s. match_at key (drop i s) = Some v \<and> (\<forall>j<i. match_at key (drop j s) = None)"
proof (induction s)
  case Nil
  then show ?case by simp
next
  case (Cons c cs)
  show ?case
  proof (cases "match_at key (c # cs)")
    case None
    with Cons.prems have "re_search key cs = Some v" by simp
    from Cons.IH [OF this] obtain i where i: "i \<le> length cs" "match_at key (drop i cs) = Some v"
      "\<forall>j<i. match_at key (drop j cs) = None" by blast
    have "\<forall>j<Suc i. match_at key (drop j (c # cs)) = None"
    proof (intro allI impI)
      fix j assume "j < Suc i"
      then show "match_at key (drop j (c # cs)) = None"
        using None i(3) by (cases j) auto
    qed
    with i show ?thesis
      by (intro exI [of _ "Suc i"]) simp
  next
    case (Some w)
    with Cons.prems have "w = v" by simp
    with Some show ?thesis
      by (intro exI [of _ 0]) simp
  qed
qed

text \<open>
  C10, as the script has it. The value that \<open>extract_scope_field\<close> returns is never the
  empty string: it is \<open>None\<close> exactly when the key followed by a slash and a character
  other than the space U+0020 occurs nowhere in the scope string; otherwise it is the
  longest run of characters other than the space that follows the first such occurrence.
  Only U+0020 ends the run: a tab or a line break is part of the value.
\<close>

theorem extract_scope_field_first_run:
  "(extract_scope_field s key = None \<longleftrightarrow>
      (\<forall>pre c rest. s = pre @ key @ ''/'' @ c # rest \<longrightarrow> c = CHR '' '')) \<and>
   (\<forall>v. extract_scope_field s key = Some v \<longrightarrow>
      v \<noteq> [] \<and> CHR '' '' \<notin> set v \<and>
      (\<exists>pre rest. s = pre @ key @ ''/'' @ v @ rest \<and> (rest = [] \<or> hd rest = CHR '' '') \<and>
         (\<forall>pre' c rest'. s = pre' @ key @ ''/'' @ c # rest' \<and> c \<noteq> CHR '' '' \<longrightarrow>
            length pre \<le> length pre')))"
proof (intro conjI allI impI)
  show "extract_scope_field s key = None \<longleftrightarrow>
      (\<forall>pre c rest. s = pre @ key @ ''/'' @ c # rest \<longrightarrow> c = CHR '' '')"
  proof
    assume "extract_scope_field s key = None"
    then have n: "\<forall>i\<le>length s. match_at key (drop i s) = None"
      by (simp add: extract_scope_field_def re_search_None_iff)
    show "\<forall>pre c rest. s = pre @ key @ ''/'' @ c # rest \<longrightarrow> c = CHR '' ''"
    proof (intro allI impI)
      fix pre c rest assume s: "s = pre @ key @ ''/'' @ c # rest"
      then have "length pre \<le> length s" and "drop (length pre) s = key @ ''/'' @ c # rest"
        by simp_all
      with n have "match_at key (key @ ''/'' @ c # rest) = None" by metis
      then show "c = CHR '' ''" by (simp add: match_at_None_iff)
    qed
  next
    assume a: "\<forall>pre c rest. s = pre @ key @ ''/'' @ c # rest \<longrightarrow> c = CHR '' ''"
    have "\<forall>i\<le>length s. match_at key (drop i s) = None"
    proof (intro allI impI)
      fix i assume "i \<le> length s"
      show "match_at key (drop i s) = None"
        unfolding match_at_None_iff
      proof (intro allI impI)
        fix c rest assume "drop i s = key @ ''/'' @ c # rest"
        then have "s = take i s @ key @ ''/'' @ c # rest"
          by (metis append_take_drop_id)
        with a show "c = CHR '' ''" by blast
      qed
    qed
    then show "extract_scope_field s key = None"
      by (simp add: extract_scope_field_def re_search_None_iff)
  qed
next
  fix v assume v: "extract_scope_field s key = Some v"
  then obtain i where i: "i \<le> length s" "match_at key (drop i s) = Some v"
    "\<forall>j<i. match_at key (drop j s) = None"
    using re_search_SomeD [of key s v] by (auto simp: extract_scope_field_def)
  from match_at_SomeD [OF i(2)] obtain rest where r: "drop i s = key @ ''/'' @ v @ rest"
    "v \<noteq> []" "CHR '' '' \<notin> set v" "rest = [] \<or> hd rest = CHR '' ''" by blast
  show "v \<noteq> []" by fact
  show "CHR '' '' \<notin> set v" by fact
  have s: "s = take i s @ key @ ''/'' @ v @ rest"
    using r(1) by (metis append_take_drop_id)
  have "\<forall>pre' c rest'. s = pre' @ key @ ''/'' @ c # rest' \<and> c \<noteq> CHR '' '' \<longrightarrow> length (take i s) \<le> length pre'"
  proof (intro allI impI)
    fix pre' c rest' assume h: "s = pre' @ key @ ''/'' @ c # rest' \<and> c \<noteq> CHR '' ''"
    then have "drop (length pre') s = key @ ''/'' @ c # rest'" by simp
    with h have "match_at key (drop (length pre') s) \<noteq> None"
      by (auto simp: match_at_None_iff)
    with i(3) have "\<not> length pre' < i" by auto
    then show "length (take i s) \<le> length pre'" by simp
  qed
  with s r(4) show "\<exists>pre rest. s = pre @ key @ ''/'' @ v @ rest \<and> (rest = [] \<or> hd rest = CHR '' '') \<and>
         (\<forall>pre' c rest'. s = pre' @ key @ ''/'' @ c # rest' \<and> c \<noteq> CHR '' '' \<longrightarrow>
            length pre \<le> length pre')"
    by (intro exI [of _ "take i s"] exI [of _ rest] conjI)
qed

text \<open>The scope string of the docstring, among others: the value of the model key.\<close>

theorem extract_scope_field_first_run_witness:
  "extract_scope_field
     ''onvif://www.onvif.org/name/Cam onvif://www.onvif.org/model/ABC123 onvif://www.onvif.org/hardware/H1''
     ''onvif://www.onvif.org/model'' = Some ''ABC123'' \<and>
   ''ABC123'' \<noteq> [] \<and> CHR '' '' \<notin> set ''ABC123''"
proof -
  have e: "extract_scope_field
     ''onvif://www.onvif.org/name/Cam onvif://www.onvif.org/model/ABC123 onvif://www.onvif.org/hardware/H1''
     ''onvif://www.onvif.org/model'' = Some ''ABC123''"
    by (simp add: extract_scope_field_def match_at_def)
  note t = extract_scope_field_first_run
    [of "''onvif://www.onvif.org/name/Cam onvif://www.onvif.org/model/ABC123 onvif://www.onvif.org/hardware/H1''"
        "''onvif://www.onvif.org/model''", THEN conjunct2, THEN spec, of "''ABC123''", THEN mp, OF e]
  from t e show ?thesis by blast
qed

text \<open>
  C10 as it is worded fails where the value is followed by whitespace other than a space:
  the returned value runs over the tab, which is whitespace.
\<close>

theorem extract_scope_field_tab_counterexample:
  "extract_scope_field (''onvif://www.onvif.org/model/ABC'' @ [CHR 0x09] @ ''DEF'')
     ''onvif://www.onvif.org/model'' = Some (''ABC'' @ [CHR 0x09] @ ''DEF'') \<and>
   py_isspace (CHR 0x09)"
  by (simp add: extract_scope_field_def match_at_def py_isspace_def)

subsection \<open>The response parser\<close>

lemma findall_scopes: "findall (qname ns_d ''Scopes'') probe_match_tree =
   [Element ''{http://schemas.xmlsoap.org/ws/2005/04/discovery}Scopes''
                   (Some ''onvif://www.onvif.org/name/Cam onvif://www.onvif.org/model/ABC123'') []]"
  by (simp add: probe_match_tree_def qname_def ns_d_def)

lemma findall_xaddrs: "findall (qname ns_d ''XAddrs'') probe_match_tree =
   [Element ''{http://schemas.xmlsoap.org/ws/2005/04/discovery}XAddrs''
                   (Some ''http://192.168.1.10/onvif/device_service'') [],
                 Element ''{http://schemas.xmlsoap.org/ws/2005/04/discovery}XAddrs'' None []]"
  by (simp add: probe_match_tree_def qname_def ns_d_def)

lemma dropWhile_hd: "s \<noteq> [] \<Longrightarrow> \<not> P (hd s) \<Longrightarrow> dropWhile P s = s"
  by (cases s) auto

lemma strip_plain: "s \<noteq> [] \<Longrightarrow> \<not> py_isspace (hd s) \<Longrightarrow> \<not> py_isspace (last s) \<Longrightarrow> strip s = s"
  by (simp add: strip_def dropWhile_hd hd_rev)

lemma append_xaddrs_all_text:
  "\<forall>x\<in>set xs. elem_text x \<noteq> None \<Longrightarrow>
   append_xaddrs xs acc = (acc @ map (\<lambda>x. strip (the (elem_text x))) xs, None)"
  by (induction xs arbitrary: acc) auto

lemma parse_probe_response_counts:
  assumes "fromstring xml_data = Inr root"
    and "\<forall>x\<in>set (findall (qname ns_d ''XAddrs'') root). elem_text x \<noteq> None"
  shows "Scopes (parse_probe_response fromstring xml_data) =
           map (\<lambda>s. strip (case elem_text s of None \<Rightarrow> [] | Some txt \<Rightarrow> txt)) (findall (qname ns_d ''Scopes'') root) \<and>
         XAddrs (parse_probe_response fromstring xml_data) =
           map (\<lambda>x. strip (the (elem_text x))) (findall (qname ns_d ''XAddrs'') root) \<and>
         error (parse_probe_response fromstring xml_data) = None"
  using assms by (simp add: parse_probe_response_def append_xaddrs_all_text Let_def)

text \<open>
  C4 at a well-formed Probe-Match whose second \<open>XAddrs\<close> element is empty: the document
  has two \<open>XAddrs\<close> elements, the record has one address. \<open>x.text\<close> is \<open>None\<close> for the
  empty element, \<open>x.text.strip()\<close> raises, and the handler records the error; the scope
  fields are never set. The loop over \<open>Scopes\<close> guards the same case with \<open>s.text or ""\<close>.
\<close>

theorem parse_probe_response_empty_xaddrs:
  "length (findall (qname ns_d ''XAddrs'') probe_match_tree) = 2 \<and>
   XAddrs (parse_probe_response example_fromstring probe_match_doc) = [''http://192.168.1.10/onvif/device_service''] \<and>
   error (parse_probe_response example_fromstring probe_match_doc) =
     Some ([CHR 0x27] @ ''NoneType'' @ [CHR 0x27] @ '' object has no attribute '' @ [CHR 0x27] @ ''strip'' @ [CHR 0x27]) \<and>
   Model (parse_probe_response example_fromstring probe_match_doc) = None"
  by (simp add: parse_probe_response_def example_fromstring_def findall_scopes findall_xaddrs
        strip_plain py_isspace_def)

text \<open>
  C5. When the parser rejects the input with a \<open>ParseError\<close>, \<open>parse_probe_response\<close>
  returns a record whose \<open>error\<close> field holds the parser's message, which is not empty; the
  two lists are empty. The function returns a record on every input: all that can raise is
  inside its \<open>try\<close>, whose handler catches every \<open>Exception\<close>.
\<close>

theorem parse_probe_response_malformed:
  assumes "fromstring xml_data = Inl (ParseError reason l c)"
  shows "\<exists>msg. error (parse_probe_response fromstring xml_data) = Some msg \<and> msg \<noteq> [] \<and>
           msg = reason @ '': line '' @ str_nat l @ '', column '' @ str_nat c \<and>
           Scopes (parse_probe_response fromstring xml_data) = [] \<and>
           XAddrs (parse_probe_response fromstring xml_data) = []"
  using assms by (simp add: parse_probe_response_def)

theorem parse_probe_response_malformed_witness:
  "error (parse_probe_response example_fromstring ''<e:Envelope'') = Some ''unclosed token: line 1, column 0''"
proof -
  have f: "example_fromstring ''<e:Envelope'' = Inl (ParseError ''unclosed token'' 1 0)"
    by (simp add: example_fromstring_def probe_match_doc_def)
  have n: "str_nat 1 = ''1''" "str_nat 0 = ''0''"
    by (simp_all add: str_nat.simps)
  show ?thesis
    using parse_probe_response_malformed [of example_fromstring "''<e:Envelope''" "''unclosed token''" 1 0] f n
    by simp
qed

subsection \<open>The receive loop\<close>

lemma returns_after_less: "returns_after timeout ev = Some d \<Longrightarrow> d < timeout"
  by (cases ev) (auto split: if_splits)

lemma returns_after_positive: "returns_after timeout ev \<noteq> None \<Longrightarrow> 0 < timeout"
  by (cases ev) (auto split: if_splits)

lemma recv_loop_step:
  "returns_after timeout (net i) \<noteq> None \<Longrightarrow>
   recv_loop fs timeout net i st =
     recv_loop fs timeout net (Suc i)
       (fst st @ received fs (net i), snd st + the (returns_after timeout (net i)))"
  by (subst recv_loop.simps) (cases "net i"; auto split: if_splits)

lemma recv_loop_stop:
  "0 < timeout \<Longrightarrow> returns_after timeout (net i) = None \<Longrightarrow>
   recv_loop fs timeout net i st = Some (fst st, snd st + timeout)"
  by (subst recv_loop.simps) (cases "net i"; auto split: if_splits)

text \<open>On a socket that does not block, the loop is never left.\<close>

lemma recv_loop_returns_positive:
  assumes "recv_loop fs timeout net i st = Some r"
  shows "0 < timeout"
proof (rule recv_loop.raw_induct [where P = "\<lambda>fs timeout net i st r. 0 < timeout", OF _ assms])
  fix approx :: "(string \<Rightarrow> py_exn + element) \<Rightarrow> nat \<Rightarrow> (nat \<Rightarrow> recv_event) \<Rightarrow> nat \<Rightarrow>
     device_info list \<times> nat \<Rightarrow> (device_info list \<times> nat) option"
  fix fromstring' :: "string \<Rightarrow> py_exn + element"
  fix timeout' net' i' st' fromstring r'
  assume ih: "\<And>fs t n j s y. approx fs t n j s = Some y \<Longrightarrow> 0 < t"
  assume step: "(if timeout' = 0
      then case net' i' of
           Datagram d xml_data addr \<Rightarrow>
             if d = 0
             then approx fromstring timeout' net' (Suc i')
                   (fst st' @ [(parse_probe_response fromstring xml_data)\<lparr>from_addr := Some addr\<rparr>], snd st')
             else approx fromstring timeout' net' (Suc i') st'
           | RecvError d msg \<Rightarrow> approx fromstring timeout' net' (Suc i') st'
           | Silence \<Rightarrow> approx fromstring timeout' net' (Suc i') st'
      else case net' i' of
           Datagram d xml_data addr \<Rightarrow>
             if d < timeout'
             then approx fromstring timeout' net' (Suc i')
                   (fst st' @ [(parse_probe_response fromstring xml_data)\<lparr>from_addr := Some addr\<rparr>], snd st' + d)
             else Some (fst st', snd st' + timeout')
           | RecvError d msg \<Rightarrow>
               if d < timeout' then approx fromstring timeout' net' (Suc i') (fst st', snd st' + d)
               else Some (fst st', snd st' + timeout')
           | Silence \<Rightarrow> Some (fst st', snd st' + timeout')) = Some r'"
  show "0 < timeout'"
  proof (rule ccontr)
    assume "\<not> 0 < timeout'"
    then have z: "timeout' = 0" by simp
    from step z obtain s where "approx fromstring 0 net' (Suc i') s = Some r'"
      by (auto split: recv_event.splits if_splits)
    from ih [OF this] show False by simp
  qed
qed

lemma recv_loop_timeout_zero: "recv_loop fs 0 net i st = None"
  using recv_loop_returns_positive [of fs 0 net i st] by (cases "recv_loop fs 0 net i st") auto

lemma discover_onvif_devices_timeout_zero:
  "discover_onvif_devices probe_message fs 0 net p = None"
  by (simp add: discover_onvif_devices_def recv_loop_timeout_zero)

lemma recv_loop_run:
  assumes "\<forall>j. i \<le> j \<and> j < k \<longrightarrow> returns_after timeout (net j) \<noteq> None"
    and "returns_after timeout (net k) = None" and "i \<le> k" and "0 < timeout"
  shows "recv_loop fs timeout net i st =
           Some (fst st @ concat (map (\<lambda>j. received fs (net j)) [i..<k]),
                 snd st + (\<Sum>j = i..<k. the (returns_after timeout (net j))) + timeout)"
  using assms
proof (induction "k - i" arbitrary: i st)
  case 0
  then have "i = k" by simp
  with "0.prems"(2,4) show ?case
    by (simp add: recv_loop_stop)
next
  case (Suc n)
  then have lt: "i < k" by simp
  with Suc.prems(1) have r: "returns_after timeout (net i) \<noteq> None" by simp
  have n: "n = k - Suc i" using Suc.hyps(2) by simp
  have "recv_loop fs timeout net (Suc i) (fst st @ received fs (net i), snd st + the (returns_after timeout (net i))) =
        Some (fst (fst st @ received fs (net i), snd st + the (returns_after timeout (net i))) @ concat (map (\<lambda>j. received fs (net j)) [Suc i..<k]),
              snd (fst st @ received fs (net i), snd st + the (returns_after timeout (net i))) + (\<Sum>j = Suc i..<k. the (returns_after timeout (net j))) + timeout)"
    by (rule Suc.hyps(1) [OF n]) (use Suc.prems lt in auto)
  then show ?case
    using lt r by (simp add: recv_loop_step upt_conv_Cons sum.atLeast_Suc_lessThan add.assoc)
qed

lemma window_bound:
  assumes "\<forall>j<k. returns_after timeout (net j) \<noteq> None"
  shows "(\<Sum>j<k. the (returns_after timeout (net j))) \<le> k * timeout"
proof -
  have "\<And>j. j < k \<Longrightarrow> the (returns_after timeout (net j)) \<le> timeout"
    using assms returns_after_less by (metis less_imp_le_nat option.exhaust_sel)
  then have "(\<Sum>j<k. the (returns_after timeout (net j))) \<le> (\<Sum>j<k. timeout)"
    by (intro sum_mono) simp
  then show ?thesis by simp
qed

text \<open>
  C3, as the script has it, for a positive timeout. The socket timeout is set once, before
  the loop, so every receive call may block for the whole of \<open>timeout\<close>, whatever time has
  passed. The loop ends at the first call that meets nothing within \<open>timeout\<close>. If the \<open>k\<close>
  calls before it returned, the loop returns, and the time it took is the sum of their
  waits plus \<open>timeout\<close>: at most \<open>(k + 1) * timeout\<close>.
\<close>

theorem receive_window:
  assumes "0 < timeout"
    and "\<forall>j<k. returns_after timeout (net j) \<noteq> None"
    and "returns_after timeout (net k) = None"
  shows "\<exists>results p'.
           discover_onvif_devices probe_message fs timeout net p =
             Some (results, (\<Sum>j<k. the (returns_after timeout (net j))) + timeout, p') \<and>
           (\<Sum>j<k. the (returns_after timeout (net j))) + timeout \<le> (k + 1) * timeout"
proof -
  have "recv_loop fs timeout net 0 ([], 0) =
          Some (concat (map (\<lambda>j. received fs (net j)) [0..<k]),
                (\<Sum>j = 0..<k. the (returns_after timeout (net j))) + timeout)"
    using recv_loop_run [of 0 k timeout net fs "([], 0)"] assms by simp
  then have "discover_onvif_devices probe_message fs timeout net p =
     Some (concat (map (\<lambda>j. received fs (net j)) [0..<k]), (\<Sum>j<k. the (returns_after timeout (net j))) + timeout,
           p\<lparr>wire := wire p @ [(probe_message, MULTICAST_GROUP, PORT)]\<rparr>)"
    by (simp add: discover_onvif_devices_def atLeast0LessThan)
  moreover have "(\<Sum>j<k. the (returns_after timeout (net j))) + timeout \<le> (k + 1) * timeout"
    using window_bound [OF assms(2)] by simp
  ultimately show ?thesis by blast
qed

text \<open>Three answers, four ticks apart, with a timeout of five ticks.\<close>

theorem receive_window_witness:
  "map_option (fst \<circ> snd) (discover_onvif_devices (PROBE_MESSAGE (example_uuids 0)) example_fromstring 5 busy_net
      \<lparr>uuid_calls = 1, wire = []\<rparr>) = Some 17 \<and> (17::nat) \<le> (3 + 1) * 5"
proof -
  have p: "(0::nat) < 5"
    by simp
  have a: "\<forall>j<3. returns_after 5 (busy_net j) \<noteq> None"
    by (simp add: busy_net_def)
  have b: "returns_after 5 (busy_net 3) = None"
    by (simp add: busy_net_def)
  have c: "(\<Sum>j<3. the (returns_after 5 (busy_net j))) = 12"
    by (simp add: busy_net_def lessThan_nat_numeral lessThan_Suc)
  show ?thesis
    using receive_window [OF p a b, of "PROBE_MESSAGE (example_uuids 0)" example_fromstring "\<lparr>uuid_calls = 1, wire = []\<rparr>"] c
    by auto
qed

text \<open>
  C3 as it is worded fails on the same network: with \<open>TIMEOUT\<close>, five ticks, the loop
  takes seventeen.
\<close>

theorem receive_window_counterexample:
  "map_option (fst \<circ> snd) (discover_onvif_devices (PROBE_MESSAGE (example_uuids 0)) example_fromstring TIMEOUT busy_net
      \<lparr>uuid_calls = 1, wire = []\<rparr>) = Some 17 \<and> TIMEOUT < 17"
  by (simp add: discover_onvif_devices_def recv_loop_step recv_loop_stop busy_net_def TIMEOUT_def)

subsection \<open>The probe\<close>

lemma recv_loop_returns:
  assumes "0 < timeout" and "returns_after timeout (net k) = None"
  shows "\<exists>r. recv_loop fs timeout net 0 st = Some r"
proof -
  define m where "m = (LEAST k. returns_after timeout (net k) = None)"
  have a: "returns_after timeout (net m) = None"
    unfolding m_def using assms(2) by (rule LeastI)
  have b: "\<forall>j. 0 \<le> j \<and> j < m \<longrightarrow> returns_after timeout (net j) \<noteq> None"
    unfolding m_def using not_less_Least by blast
  show ?thesis
    using recv_loop_run [OF b a _ assms(1), of fs st] by simp
qed

lemma discover_onvif_devices_sends:
  assumes "discover_onvif_devices probe_message fs timeout net p = Some (results, elapsed, p')"
  shows "p' = p\<lparr>wire := wire p @ [(probe_message, MULTICAST_GROUP, PORT)]\<rparr>"
  using assms by (auto simp: discover_onvif_devices_def split: option.splits)

lemma discover_onvif_devices_returns:
  assumes "0 < timeout" and "returns_after timeout (net k) = None"
  shows "\<exists>results elapsed. discover_onvif_devices probe_message fs timeout net p =
           Some (results, elapsed, p\<lparr>wire := wire p @ [(probe_message, MULTICAST_GROUP, PORT)]\<rparr>)"
  using recv_loop_returns [where timeout = timeout and net = net and k = k and fs = fs and st = "([], 0)"] assms
  by (auto simp: discover_onvif_devices_def)

lemma invocations_send:
  assumes "\<forall>call\<in>set calls. 0 < fst call \<and> (\<exists>k. returns_after (fst call) (snd call k) = None)"
  shows "invocations probe_message fs calls p =
           Some (p\<lparr>wire := wire p @ replicate (length calls) (probe_message, MULTICAST_GROUP, PORT)\<rparr>)"
  using assms
proof (induction calls arbitrary: p)
  case Nil
  then show ?case by simp
next
  case (Cons call calls)
  from Cons.prems obtain k where "0 < fst call" "returns_after (fst call) (snd call k) = None"
    by auto
  from discover_onvif_devices_returns
         [where timeout = "fst call" and net = "snd call" and k = k and probe_message = probe_message
            and fs = fs and p = p] this
  obtain results elapsed where
    d: "discover_onvif_devices probe_message fs (fst call) (snd call) p =
          Some (results, elapsed, p\<lparr>wire := wire p @ [(probe_message, MULTICAST_GROUP, PORT)]\<rparr>)"
    by blast
  have "invocations probe_message fs calls (p\<lparr>wire := wire p @ [(probe_message, MULTICAST_GROUP, PORT)]\<rparr>) =
          Some (p\<lparr>wire := wire p @ [(probe_message, MULTICAST_GROUP, PORT)]\<rparr>
                 \<lparr>wire := wire (p\<lparr>wire := wire p @ [(probe_message, MULTICAST_GROUP, PORT)]\<rparr>) @
                    replicate (length calls) (probe_message, MULTICAST_GROUP, PORT)\<rparr>)"
    by (rule Cons.IH) (use Cons.prems in auto)
  with d show ?case
    by (simp add: replicate_app_Cons_same)
qed

text \<open>
  The MessageID is generated once, when the module is loaded, and never again: when every
  call of \<open>discover_onvif_devices\<close> in a process has a positive timeout and a network that
  falls silent at some point, the process returns from all of them, and what it has sent
  is as many copies of one probe.
\<close>

lemma run_process_sends_one_probe:
  assumes "\<forall>call\<in>set calls. 0 < fst call \<and> (\<exists>k. returns_after (fst call) (snd call k) = None)"
  shows "run_process src fs calls = Some (replicate (length calls) (PROBE_MESSAGE (src 0)))"
  using invocations_send [OF assms]
  by (simp add: run_process_def load_module_def uuid4_def)

text \<open>
  C1 at a process that calls \<open>discover_onvif_devices\<close> twice, each time with \<open>TIMEOUT\<close> and
  no answer: both probes on the wire carry the first UUID of the process, though its
  source of UUIDs would have given another one for the second call. The f-string of
  \<open>PROBE_MESSAGE\<close> calls \<open>uuid.uuid4()\<close> for a fresh identifier, but at module level, where
  it is evaluated once.
\<close>

theorem two_invocations_same_message_id:
  "run_process example_uuids example_fromstring [(TIMEOUT, quiet_net), (TIMEOUT, quiet_net)] =
     Some [PROBE_MESSAGE (example_uuids 0), PROBE_MESSAGE (example_uuids 0)] \<and>
   example_uuids 0 \<noteq> example_uuids 1"
  by (simp add: run_process_def load_module_def uuid4_def discover_onvif_devices_def
        recv_loop_stop quiet_net_def example_uuids_def str_nat.simps TIMEOUT_def)

section \<open>The introspection script\<close>

subsection \<open>The catalogue pass on \<open>SERVICE_METHODS\<close>\<close>

lemma derive_tokens_none:
  "video_source_tokens ctx = [] \<Longrightarrow> dict_get (services summ) (JStr ''media_GetProfiles'') = None \<Longrightarrow>
   derive_tokens summ ctx = Inr []"
  by (simp add: derive_tokens_def)

lemma run_call_default:
  "\<not> (svc_name = ''media'' \<and> method = ''GetProfiles'') \<Longrightarrow>
   \<not> (svc_name = ''imaging'' \<and> method = ''GetImagingSettings'') \<Longrightarrow>
   run_call lib svc_name service (method, args) (r, ctx, summ) =
     Inr (dict_set r (JStr method) (safe_call lib service method args), ctx, summ)"
  by (auto simp: run_call_def)

lemma run_call_GetProfiles:
  "run_call lib ''media'' service (''GetProfiles'', args) (r, ctx, summ) =
     Inr (dict_set r (JStr ''GetProfiles'') (safe_call lib service ''GetProfiles'' args),
          ctx\<lparr>profiles := (case extract_profiles (safe_call lib service ''GetProfiles'' args) of
                              JList ps \<Rightarrow> profile_tokens ps | _ \<Rightarrow> profiles ctx)\<rparr>,
          summ)"
  by (simp add: run_call_def Let_def split: jv.splits)

lemma run_call_GetImagingSettings:
  "video_source_tokens ctx = [] \<Longrightarrow> dict_get (services summ) (JStr ''media_GetProfiles'') = None \<Longrightarrow>
   run_call lib ''imaging'' service (''GetImagingSettings'', args) (r, ctx, summ) =
     Inr (dict_set r (JStr ''GetImagingSettings'') (JDict [(JStr ''note'', JStr no_token_note)]),
          ctx,
          summ\<lparr>services := dict_set (services summ) (JStr ''imaging'')
             (JDict (dict_set r (JStr ''GetImagingSettings'') (JDict [(JStr ''note'', JStr no_token_note)])))\<rparr>)"
  by (simp add: run_call_def derive_tokens_none Let_def)

lemmas run_service_unfold =
  catalog_entry_def SERVICE_METHODS_def run_service_def service_creators_def service_report_def method_entry_def
  run_call_default

lemma run_service_device:
  "run_service lib cam (catalog_entry ''device'') (ctx, summ) =
     Inr (ctx, summ\<lparr>services := dict_set (services summ) (JStr ''device'')
                                    (service_report lib cam (catalog_entry ''device''))\<rparr>)"
  by (simp add: run_service_unfold split: sum.splits)

lemma run_service_media:
  "run_service lib cam (catalog_entry ''media'') (ctx, summ) =
     Inr (ctx\<lparr>profiles :=
                (case create_media_service cam 0 of
                   Inl e \<Rightarrow> profiles ctx
                 | Inr media \<Rightarrow>
                     (case extract_profiles (safe_call lib media ''GetProfiles'' []) of
                        JList ps \<Rightarrow> profile_tokens ps
                      | _ \<Rightarrow> profiles ctx))\<rparr>,
          summ\<lparr>services := dict_set (services summ) (JStr ''media'')
                               (service_report lib cam (catalog_entry ''media''))\<rparr>)"
  by (simp add: run_service_unfold run_call_GetProfiles split: sum.splits)

lemma run_service_imaging:
  "video_source_tokens ctx = [] \<Longrightarrow> dict_get (services summ) (JStr ''media_GetProfiles'') = None \<Longrightarrow>
   run_service lib cam (catalog_entry ''imaging'') (ctx, summ) =
     Inr (ctx, summ\<lparr>services := dict_set (services summ) (JStr ''imaging'')
                                    (service_report lib cam (catalog_entry ''imaging''))\<rparr>)"
  by (simp add: run_service_unfold run_call_GetImagingSettings dict_set_set split: sum.splits)

lemma run_service_ptz:
  "run_service lib cam (catalog_entry ''ptz'') (ctx, summ) =
     Inr (ctx, summ\<lparr>services := dict_set (services summ) (JStr ''ptz'')
                                    (service_report lib cam (catalog_entry ''ptz''))\<rparr>)"
  by (simp add: run_service_unfold split: sum.splits)

lemma run_service_events:
  "run_service lib cam (catalog_entry ''events'') (ctx, summ) =
     Inr (ctx, summ\<lparr>services := dict_set (services summ) (JStr ''events'')
                                    (service_report lib cam (catalog_entry ''events''))\<rparr>)"
  by (simp add: run_service_unfold split: sum.splits)

lemma SERVICE_METHODS_entries:
  "SERVICE_METHODS = [catalog_entry ''device'', catalog_entry ''media'', catalog_entry ''imaging'',
                      catalog_entry ''ptz'', catalog_entry ''events'']"
  by (simp add: SERVICE_METHODS_def catalog_entry_def)

lemma catalog_entry_name: "fst (catalog_entry svc_name) = svc_name"
  by (simp add: catalog_entry_def)

lemma report_services_unfold:
  "report_services lib cam base =
     dict_set (dict_set (dict_set (dict_set (dict_set base
       (JStr ''device'') (service_report lib cam (catalog_entry ''device'')))
       (JStr ''media'') (service_report lib cam (catalog_entry ''media'')))
       (JStr ''imaging'') (service_report lib cam (catalog_entry ''imaging'')))
       (JStr ''ptz'') (service_report lib cam (catalog_entry ''ptz'')))
       (JStr ''events'') (service_report lib cam (catalog_entry ''events''))"
  unfolding report_services_def
  by (subst SERVICE_METHODS_entries) (simp add: catalog_entry_name)

lemma catalog_pass_SERVICE_METHODS:
  assumes "dict_get (services summ) (JStr ''media_GetProfiles'') = None"
  shows "catalog_pass lib cam SERVICE_METHODS (\<lparr>profiles = [], video_source_tokens = []\<rparr>, summ) =
           Inr (\<lparr>profiles = found_profiles lib cam, video_source_tokens = []\<rparr>,
                summ\<lparr>services := report_services lib cam (services summ)\<rparr>)"
proof -
  have "catalog_pass lib cam [catalog_entry ''device'', catalog_entry ''media'', catalog_entry ''imaging'',
                      catalog_entry ''ptz'', catalog_entry ''events''] (\<lparr>profiles = [], video_source_tokens = []\<rparr>, summ) =
           Inr (\<lparr>profiles = found_profiles lib cam, video_source_tokens = []\<rparr>,
                summ\<lparr>services := report_services lib cam (services summ)\<rparr>)"
    using assms
    by (simp add: run_service_device run_service_media run_service_imaging run_service_ptz
          run_service_events dict_get_set report_services_unfold found_profiles_def
          split: sum.splits jv.splits)
  then show ?thesis
    by (subst SERVICE_METHODS_entries)
qed

lemma get_services_stage_keys:
  "dict_get (services (get_services_stage lib cam initial_summary)) (JStr ''media_GetProfiles'') = None"
  by (simp add: get_services_stage_def initial_summary_def split: sum.splits)

lemma main_completes:
  "main lib (Inr cam) =
     Completed (device_info_stage (stream_pass lib cam
       \<lparr>profiles = found_profiles lib cam, video_source_tokens = []\<rparr>
       ((get_services_stage lib cam initial_summary)
          \<lparr>services := report_services lib cam (services (get_services_stage lib cam initial_summary))\<rparr>)))"
  by (simp add: main_def catalog_pass_SERVICE_METHODS get_services_stage_keys)

lemma services_device_info_stage: "services (device_info_stage s) = services s"
  by (simp add: device_info_stage_def split: option.splits)

lemma services_stream_pass: "services (stream_pass lib cam ctx s) = services s"
  by (simp add: stream_pass_def split: sum.splits)

lemma main_services:
  "main lib (Inr cam) = Completed s \<Longrightarrow>
   services s = report_services lib cam (services (get_services_stage lib cam initial_summary))"
  by (auto simp: main_completes services_device_info_stage services_stream_pass)

subsection \<open>What the report holds for each configured call\<close>

lemma in_SERVICE_METHODS:
  "(svc_name, calls) \<in> set SERVICE_METHODS \<longleftrightarrow>
     svc_name \<in> {''device'', ''media'', ''imaging'', ''ptz'', ''events''} \<and>
     (svc_name, calls) = catalog_entry svc_name"
  by (auto simp: SERVICE_METHODS_def catalog_entry_def)

lemma service_entry_main:
  assumes "(svc_name, calls) \<in> set SERVICE_METHODS"
  shows "service_entry (main lib (Inr cam)) svc_name = Some (service_report lib cam (svc_name, calls))"
proof -
  from assms have n: "svc_name \<in> {''device'', ''media'', ''imaging'', ''ptz'', ''events''}"
    and c: "(svc_name, calls) = catalog_entry svc_name"
    by (simp_all add: in_SERVICE_METHODS)
  have "dict_get (report_services lib cam base) (JStr svc_name) = Some (service_report lib cam (catalog_entry svc_name))"
    for base
    using n by (auto simp: report_services_unfold dict_get_set)
  then show ?thesis
    by (simp add: service_entry_def main_completes services_device_info_stage services_stream_pass c)
qed

lemma SERVICE_METHODS_distinct:
  "(svc_name, calls) \<in> set SERVICE_METHODS \<Longrightarrow> distinct (map fst calls)"
  by (auto simp: SERVICE_METHODS_def)

lemma SERVICE_METHODS_creators:
  "(svc_name, calls) \<in> set SERVICE_METHODS \<Longrightarrow> service_creators cam svc_name \<noteq> None"
  by (auto simp: SERVICE_METHODS_def service_creators_def)

lemma dict_get_method_entry:
  "distinct (map fst calls) \<Longrightarrow> (method, args) \<in> set calls \<Longrightarrow>
   dict_get (map (method_entry lib svc_name service) calls) (JStr method) =
     Some (snd (method_entry lib svc_name service (method, args)))"
proof (induction calls)
  case Nil
  then show ?case by simp
next
  case (Cons call calls)
  show ?case
  proof (cases "fst call = method")
    case True
    with Cons.prems have "call = (method, args)"
      by (cases call) (auto simp: rev_image_eqI)
    then show ?thesis by (simp add: method_entry_def)
  next
    case False
    with Cons show ?thesis by (auto simp: method_entry_def)
  qed
qed

lemma report_entry_main:
  assumes "(svc_name, calls) \<in> set SERVICE_METHODS"
    and "service_creators cam svc_name = Some (Inr service)"
    and "(method, args) \<in> set calls"
  shows "report_entry (main lib (Inr cam)) svc_name method =
           Some (if svc_name = ''imaging'' \<and> method = ''GetImagingSettings''
                 then JDict [(JStr ''note'', JStr no_token_note)]
                 else safe_call lib service method args)"
  using dict_get_method_entry [OF SERVICE_METHODS_distinct [OF assms(1)] assms(3), of lib svc_name service]
  by (simp add: report_entry_def service_entry_main [OF assms(1)] service_report_def assms(2)
        method_entry_def)

text \<open>
  C7, as the script has it. Every run that gets past the constructor reaches the end of
  \<open>main\<close>, and for every service of \<open>SERVICE_METHODS\<close>:
  \<^item> if its session is created, the report has an entry under the service and the method
    for every configured call: the outcome of \<open>safe_call\<close>, a success or a failure, and for
    \<open>GetImagingSettings\<close> the note that no token was found;
  \<^item> if its creator raises, the report has one failure for the service as a whole, and
    with it no entry for any of its methods.
\<close>

theorem created_service_reports_every_call:
  "\<forall>(svc_name, calls) \<in> set SERVICE_METHODS.
     (case service_creators cam svc_name of
        None \<Rightarrow> False
      | Some (Inl e) \<Rightarrow>
          service_entry (main lib (Inr cam)) svc_name = Some (creation_failure lib svc_name e)
      | Some (Inr service) \<Rightarrow>
          (\<forall>(method, args) \<in> set calls.
             report_entry (main lib (Inr cam)) svc_name method =
               Some (if svc_name = ''imaging'' \<and> method = ''GetImagingSettings''
                     then JDict [(JStr ''note'', JStr no_token_note)]
                     else safe_call lib service method args)))"
proof (intro ballI, clarify)
  fix svc_name calls
  assume m: "(svc_name, calls) \<in> set SERVICE_METHODS"
  show "case service_creators cam svc_name of
        None \<Rightarrow> False
      | Some (Inl e) \<Rightarrow>
          service_entry (main lib (Inr cam)) svc_name = Some (creation_failure lib svc_name e)
      | Some (Inr service) \<Rightarrow>
          (\<forall>(method, args) \<in> set calls.
             report_entry (main lib (Inr cam)) svc_name method =
               Some (if svc_name = ''imaging'' \<and> method = ''GetImagingSettings''
                     then JDict [(JStr ''note'', JStr no_token_note)]
                     else safe_call lib service method args))"
  proof (cases "service_creators cam svc_name")
    case None
    with SERVICE_METHODS_creators [OF m, of cam] show ?thesis by simp
  next
    case (Some created)
    show ?thesis
    proof (cases created)
      case (Inl e)
      with Some show ?thesis
        by (simp add: service_entry_main [OF m] service_report_def)
    next
      case (Inr service)
      with Some have "service_creators cam svc_name = Some (Inr service)" by simp
      from report_entry_main [OF m this] Some Inr show ?thesis
        by auto
    qed
  qed
qed

lemma ptz_creator: "service_creators camera_one_profile ''ptz'' = Some (Inl (OtherError ''Device doesn`t support service: ptz''))"
  by (simp add: service_creators_def camera_one_profile_def)

lemma events_creator: "service_creators camera_one_profile ''events'' = Some (Inr (answering []))"
  by (simp add: service_creators_def camera_one_profile_def)

text \<open>A camera without PTZ: the failure of the PTZ service and the one call of the events
  service.\<close>

theorem created_service_reports_every_call_witness:
  "service_entry (main example_lib (Inr camera_one_profile)) ''ptz'' =
     Some (creation_failure example_lib ''ptz'' (OtherError ''Device doesn`t support service: ptz'')) \<and>
   report_entry (main example_lib (Inr camera_one_profile)) ''events'' ''GetServiceCapabilities'' =
     Some (safe_call example_lib (answering []) ''GetServiceCapabilities'' [])"
proof -
  have p: "(''ptz'', [(''GetServiceCapabilities'', []), (''GetNodes'', [])]) \<in> set SERVICE_METHODS"
    and e: "(''events'', [(''GetServiceCapabilities'', [])]) \<in> set SERVICE_METHODS"
    by (simp_all add: SERVICE_METHODS_def)
  from created_service_reports_every_call [where cam = camera_one_profile and lib = example_lib, THEN bspec, OF p]
  have 1: "service_entry (main example_lib (Inr camera_one_profile)) ''ptz'' =
     Some (creation_failure example_lib ''ptz'' (OtherError ''Device doesn`t support service: ptz''))"
    by (simp add: ptz_creator)
  from created_service_reports_every_call [where cam = camera_one_profile and lib = example_lib, THEN bspec, OF e]
  have 2: "report_entry (main example_lib (Inr camera_one_profile)) ''events'' ''GetServiceCapabilities'' =
     Some (safe_call example_lib (answering []) ''GetServiceCapabilities'' [])"
    by (simp add: events_creator)
  from 1 2 show ?thesis by simp
qed

text \<open>
  C7 as it is worded fails on the same camera: \<open>GetNodes\<close> is configured for the PTZ
  service, and the report has nothing under that pair.
\<close>

theorem unreported_call_counterexample:
  "map_of SERVICE_METHODS ''ptz'' = Some [(''GetServiceCapabilities'', []), (''GetNodes'', [])] \<and>
   service_entry (main example_lib (Inr camera_one_profile)) ''ptz'' =
     Some (creation_failure example_lib ''ptz'' (OtherError ''Device doesn`t support service: ptz'')) \<and>
   report_entry (main example_lib (Inr camera_one_profile)) ''ptz'' ''GetNodes'' = None"
proof -
  have p: "(''ptz'', [(''GetServiceCapabilities'', []), (''GetNodes'', [])]) \<in> set SERVICE_METHODS"
    by (simp add: SERVICE_METHODS_def)
  have 1: "service_entry (main example_lib (Inr camera_one_profile)) ''ptz'' =
     Some (creation_failure example_lib ''ptz'' (OtherError ''Device doesn`t support service: ptz''))"
    by (simp add: service_entry_main [OF p] service_report_def ptz_creator)
  then have 2: "report_entry (main example_lib (Inr camera_one_profile)) ''ptz'' ''GetNodes'' = None"
    by (simp add: report_entry_def creation_failure_def)
  have 3: "map_of SERVICE_METHODS ''ptz'' = Some [(''GetServiceCapabilities'', []), (''GetNodes'', [])]"
    by (simp add: SERVICE_METHODS_def)
  from 1 2 3 show ?thesis by simp
qed

subsection \<open>A service whose session cannot be created\<close>

lemma errors_device_info_stage: "errors (device_info_stage s) = errors s"
  by (simp add: device_info_stage_def split: option.splits)

lemma stream_uris_device_info_stage: "stream_uris (device_info_stage s) = stream_uris s"
  by (simp add: device_info_stage_def split: option.splits)



lemma media_creator:
  "service_creators camera_one_profile ''media'' =
     Some (Inr (answering [(''GetProfiles'', JList [profile ''P1'' ''VS1'']),
                           (''GetStreamUri'', JDict [(JStr ''Uri'', JStr ''rtsp://192.168.1.68/1'')])]))"
  by (simp add: service_creators_def camera_one_profile_def)

lemma imaging_creator:
  "service_creators camera_one_profile ''imaging'' =
     Some (Inr (answering [(''GetImagingSettings'', JDict [(JStr ''Brightness'', JInt 50)])]))"
  by (simp add: service_creators_def camera_one_profile_def)

lemma safe_call_answering:
  "map_of table name = Some v \<Longrightarrow>
   safe_call example_lib (answering table) name args = JDict [(JStr ''result'', v)]"
  by (simp add: safe_call_def answering_def example_lib_def serialize_obj_def)





subsection \<open>The tokens for GetImagingSettings\<close>

text \<open>
  Whatever the camera answers, \<open>GetImagingSettings\<close> is never requested: the script looks
  for the profiles under the key \<open>media_GetProfiles\<close> of \<open>summary["services"]\<close>, which is
  never set; the outcome of \<open>GetProfiles\<close> is under \<open>media\<close> and \<open>GetProfiles\<close>.
\<close>

lemma imaging_settings_never_requested:
  assumes "create_imaging_service cam = Inr service"
  shows "report_entry (main lib (Inr cam)) ''imaging'' ''GetImagingSettings'' =
           Some (JDict [(JStr ''note'', JStr no_token_note)])"
proof -
  have i: "(''imaging'', [(''GetServiceCapabilities'', []), (''GetImagingSettings'', [])]) \<in> set SERVICE_METHODS"
    by (simp add: SERVICE_METHODS_def)
  have c: "service_creators cam ''imaging'' = Some (Inr service)"
    using assms by (simp add: service_creators_def)
  from report_entry_main [OF i c, of "''GetImagingSettings''" "[]" lib] show ?thesis
    by simp
qed

text \<open>
  C2 at a camera whose only profile has the video source token \<open>VS1\<close>. The outcome of
  \<open>GetProfiles\<close> is in the report, the loop of lines 179 to 191 would find \<open>VS1\<close> in it,
  and the entry of \<open>GetImagingSettings\<close> is the note that no token was found.
\<close>

theorem video_source_token_not_derived:
  "report_entry (main example_lib (Inr camera_one_profile)) ''media'' ''GetProfiles'' =
     Some (JDict [(JStr ''result'', JList [profile ''P1'' ''VS1''])]) \<and>
   vs_tokens [profile ''P1'' ''VS1''] = [JStr ''VS1''] \<and>
   report_entry (main example_lib (Inr camera_one_profile)) ''imaging'' ''GetImagingSettings'' =
     Some (JDict [(JStr ''note'', JStr no_token_note)])"
proof -
  have m: "(''media'', [(''GetProfiles'', []), (''GetServiceCapabilities'', [])]) \<in> set SERVICE_METHODS"
    by (simp add: SERVICE_METHODS_def)
  from report_entry_main [OF m media_creator, of "''GetProfiles''" "[]" example_lib]
  have 1: "report_entry (main example_lib (Inr camera_one_profile)) ''media'' ''GetProfiles'' =
     Some (JDict [(JStr ''result'', JList [profile ''P1'' ''VS1''])])"
    by (simp add: safe_call_answering)
  have 2: "vs_tokens [profile ''P1'' ''VS1''] = [JStr ''VS1'']"
    by (simp add: vs_token_of_def profile_def py_or_def py_get_def)
  have 3: "report_entry (main example_lib (Inr camera_one_profile)) ''imaging'' ''GetImagingSettings'' =
     Some (JDict [(JStr ''note'', JStr no_token_note)])"
    by (rule imaging_settings_never_requested) (simp add: camera_one_profile_def)
  from 1 2 3 show ?thesis by simp
qed

subsection \<open>safe\_call\<close>

text \<open>
  C6, as the script has it. \<open>safe_call\<close> returns a dictionary in every case.
  \<^item> If the lookup of the method raises, it is an error record with the text
    \<open>not_found\<close> and the name of the method under \<open>error\<close> and the message of
    the exception under \<open>exc\<close>; it has no traceback.
  \<^item> If the call raises, it is an error record with the message of the exception under
    \<open>error\<close> and a traceback.
  \<^item> Otherwise it is the normalised result under \<open>result\<close>.
  The method is called without arguments when the mapping is empty.
\<close>

theorem safe_call_outcome:
  "(\<forall>e. service method_name = Inl e \<longrightarrow>
        safe_call lib service method_name args =
          JDict [(JStr ''error'', JStr (not_found @ method_name)), (JStr ''exc'', JStr (str_exn e))]) \<and>
   (\<forall>method e. service method_name = Inr method \<and>
        method (if args = [] then NoArgs else Kwargs args) = Inl e \<longrightarrow>
        safe_call lib service method_name args =
          JDict [(JStr ''error'', JStr (str_exn e)), (JStr ''traceback'', JStr (format_exc lib e))]) \<and>
   (\<forall>method res. service method_name = Inr method \<and>
        method (if args = [] then NoArgs else Kwargs args) = Inr res \<longrightarrow>
        safe_call lib service method_name args = JDict [(JStr ''result'', serialize_obj lib res)])"
  by (auto simp: safe_call_def failure_def)

text \<open>A service that refuses every call.\<close>

theorem safe_call_outcome_witness:
  "safe_call example_lib refusing ''GetNodes'' [] =
     JDict [(JStr ''error'', JStr ''Sender not Authorized''),
            (JStr ''traceback'', JStr ''Traceback (most recent call last): Sender not Authorized'')]"
proof -
  have r: "refusing ''GetNodes'' = Inr (\<lambda>args. Inl (OtherError ''Sender not Authorized''))"
    by (simp add: refusing_def)
  from safe_call_outcome [where service = refusing and method_name = "''GetNodes''" and args = "[]"
      and lib = example_lib, THEN conjunct2, THEN conjunct1, THEN spec, THEN spec,
      of "\<lambda>args. Inl (OtherError ''Sender not Authorized'')" "OtherError ''Sender not Authorized''"] r
  show ?thesis
    by (simp add: example_lib_def)
qed

text \<open>
  C6 as it is worded fails where the lookup raises: the record has no traceback.
\<close>

theorem lookup_failure_has_no_traceback_counterexample:
  "safe_call example_lib (answering []) ''GetNodes'' [] =
     JDict [(JStr ''error'', JStr (not_found @ ''GetNodes'')),
            (JStr ''exc'', JStr ''Service has no operation GetNodes'')] \<and>
   py_get (safe_call example_lib (answering []) ''GetNodes'' []) (JStr ''traceback'') JNull = Some JNull"
  by (simp add: safe_call_def answering_def py_get_def)

subsection \<open>The stream addresses\<close>

lemma extract_profiles_list:
  "xs \<noteq> [] \<Longrightarrow> extract_profiles (JDict [(JStr ''result'', JList xs)]) = JList xs"
  by (simp add: extract_profiles_def py_get_def)

lemma extract_profiles_wrapped:
  "dict_get d (JStr ''Profile'') = Some (JList xs) \<Longrightarrow>
   extract_profiles (JDict [(JStr ''result'', JDict d)]) = JList xs"
  by (cases d) (auto simp: extract_profiles_def py_get_def)

lemma profile_token_string:
  "dict_get p (JStr ''token'') = Some (JStr t) \<Longrightarrow> t \<noteq> [] \<Longrightarrow> profile_token (JDict p) = JStr t"
  by (simp add: profile_token_def py_get_def)

lemma found_profiles_two:
  assumes "create_media_service cam 0 = Inr media"
    and "media ''GetProfiles'' = Inr get_profiles"
    and "get_profiles NoArgs = Inr resp"
    and "serialize_obj lib resp = JList [JDict p1, JDict p2] \<or>
         (\<exists>d. serialize_obj lib resp = JDict d \<and>
              dict_get d (JStr ''Profile'') = Some (JList [JDict p1, JDict p2]))"
    and "dict_get p1 (JStr ''token'') = Some (JStr ''P1'')"
    and "dict_get p2 (JStr ''token'') = Some (JStr ''P2'')"
  shows "found_profiles lib cam = [JStr ''P1'', JStr ''P2'']"
proof -
  have out: "safe_call lib media ''GetProfiles'' [] = JDict [(JStr ''result'', serialize_obj lib resp)]"
    using assms(2,3) by (simp add: safe_call_def)
  have "extract_profiles (safe_call lib media ''GetProfiles'' []) = JList [JDict p1, JDict p2]"
    using assms(4) by (auto simp: out extract_profiles_list extract_profiles_wrapped)
  then show ?thesis
    using assms(1,5,6) by (simp add: found_profiles_def profile_token_string)
qed

lemma main_stream_created:
  assumes "found_profiles lib cam = [JStr ''P1'', JStr ''P2'']"
    and "create_media_service cam 1 = Inr media2"
  shows "run_stream_uris (main lib (Inr cam)) =
           Some [(JStr ''P1'', stream_entry lib media2 (JStr ''P1'')),
                 (JStr ''P2'', stream_entry lib media2 (JStr ''P2''))]"
  using assms
  by (simp add: run_stream_uris_def main_completes stream_uris_device_info_stage stream_pass_def
        del: One_nat_def)

lemma main_stream_refused:
  assumes "found_profiles lib cam = [JStr ''P1'', JStr ''P2'']"
    and "create_media_service cam 1 = Inl e"
  shows "run_stream_uris (main lib (Inr cam)) = None"
    and "run_errors (main lib (Inr cam)) =
           Some (errors (get_services_stage lib cam initial_summary) @ [stage_error lib ''GetStreamUri'' e])"
  using assms
  by (simp_all add: run_stream_uris_def run_errors_def main_completes stream_uris_device_info_stage
        errors_device_info_stage stream_pass_def get_services_stage_def initial_summary_def
        del: One_nat_def split: sum.splits)

text \<open>
  C9, as the script has it. Let the media service be created for the catalogue and
  \<open>GetProfiles\<close> return a result that is normalised to two profiles with the tokens \<open>P1\<close>
  and \<open>P2\<close>, either as a list of the two or as one object that holds the list under
  \<open>Profile\<close>. The stream pass creates the media service anew.
  \<^item> If that succeeds, \<open>stream_uris\<close> has exactly two entries, under \<open>P1\<close> and \<open>P2\<close> in this
    order. The entry of a token is the outcome of the request \<open>GetStreamUri\<close> for this
    token: the record of the error message and the traceback if the lookup of the
    operation or the request raises, the normalised answer otherwise.
  \<^item> If that raises, the report has no \<open>stream_uris\<close>, and the last element of \<open>errors\<close>
    is the record of the exception with the stage \<open>GetStreamUri\<close>.
\<close>

theorem two_profiles_two_stream_uris:
  assumes "create_media_service cam 0 = Inr media"
    and "media ''GetProfiles'' = Inr get_profiles"
    and "get_profiles NoArgs = Inr resp"
    and "serialize_obj lib resp = JList [JDict p1, JDict p2] \<or>
         (\<exists>d. serialize_obj lib resp = JDict d \<and>
              dict_get d (JStr ''Profile'') = Some (JList [JDict p1, JDict p2]))"
    and "dict_get p1 (JStr ''token'') = Some (JStr ''P1'')"
    and "dict_get p2 (JStr ''token'') = Some (JStr ''P2'')"
  shows "(\<forall>media2. create_media_service cam 1 = Inr media2 \<longrightarrow>
            run_stream_uris (main lib (Inr cam)) =
              Some (map (\<lambda>t. (JStr t,
                      case media2 ''GetStreamUri'' of
                        Inl e \<Rightarrow> JDict [(JStr ''error'', JStr (str_exn e)),
                                        (JStr ''traceback'', JStr (format_exc lib e))]
                      | Inr get_stream_uri \<Rightarrow>
                          (case get_stream_uri
                                  (Positional
                                     (JDict [(JStr ''StreamSetup'',
                                                JDict [(JStr ''Stream'', JStr ''RTP-Unicast''),
                                                       (JStr ''Transport'',
                                                          JDict [(JStr ''Protocol'', JStr ''RTSP'')])]),
                                             (JStr ''ProfileToken'', JStr t)])) of
                             Inl e \<Rightarrow> JDict [(JStr ''error'', JStr (str_exn e)),
                                             (JStr ''traceback'', JStr (format_exc lib e))]
                           | Inr uri_resp \<Rightarrow> serialize_obj lib uri_resp)))
                    [''P1'', ''P2''])) \<and>
         (\<forall>e. create_media_service cam 1 = Inl e \<longrightarrow>
            run_stream_uris (main lib (Inr cam)) = None \<and>
            (\<exists>es. run_errors (main lib (Inr cam)) =
                    Some (es @ [JDict [(JStr ''stage'', JStr ''GetStreamUri''),
                                       (JStr ''error'', JStr (str_exn e)),
                                       (JStr ''traceback'', JStr (format_exc lib e))]])))"
proof (intro conjI allI impI)
  have f: "found_profiles lib cam = [JStr ''P1'', JStr ''P2'']"
    using assms by (rule found_profiles_two)
  {
    fix media2
    assume "create_media_service cam 1 = Inr media2"
    from main_stream_created [OF f this]
    show "run_stream_uris (main lib (Inr cam)) =
              Some (map (\<lambda>t. (JStr t,
                      case media2 ''GetStreamUri'' of
                        Inl e \<Rightarrow> JDict [(JStr ''error'', JStr (str_exn e)),
                                        (JStr ''traceback'', JStr (format_exc lib e))]
                      | Inr get_stream_uri \<Rightarrow>
                          (case get_stream_uri
                                  (Positional
                                     (JDict [(JStr ''StreamSetup'',
                                                JDict [(JStr ''Stream'', JStr ''RTP-Unicast''),
                                                       (JStr ''Transport'',
                                                          JDict [(JStr ''Protocol'', JStr ''RTSP'')])]),
                                             (JStr ''ProfileToken'', JStr t)])) of
                             Inl e \<Rightarrow> JDict [(JStr ''error'', JStr (str_exn e)),
                                             (JStr ''traceback'', JStr (format_exc lib e))]
                           | Inr uri_resp \<Rightarrow> serialize_obj lib uri_resp)))
                    [''P1'', ''P2''])"
      by (simp add: stream_entry_def stream_request_def failure_def split: sum.splits)
  }
  {
    fix e
    assume r: "create_media_service cam 1 = Inl e"
    from main_stream_refused(1) [OF f r]
    show "run_stream_uris (main lib (Inr cam)) = None" .
    from main_stream_refused(2) [OF f r]
    show "\<exists>es. run_errors (main lib (Inr cam)) =
                    Some (es @ [JDict [(JStr ''stage'', JStr ''GetStreamUri''),
                                       (JStr ''error'', JStr (str_exn e)),
                                       (JStr ''traceback'', JStr (format_exc lib e))]])"
      by (simp add: stage_error_def)
  }
qed

lemma two_profiles_example:
  "media_two_profiles ''GetProfiles'' =
     Inr (\<lambda>args. Inr (JList [profile ''P1'' ''VS1'', profile ''P2'' ''VS1'']))"
  "serialize_obj example_lib (JList [profile ''P1'' ''VS1'', profile ''P2'' ''VS1'']) =
     JList [JDict [(JStr ''Name'', JStr ''main''),
                   (JStr ''VideoSourceConfiguration'', JDict [(JStr ''SourceToken'', JStr ''VS1'')]),
                   (JStr ''token'', JStr ''P1'')],
            JDict [(JStr ''Name'', JStr ''main''),
                   (JStr ''VideoSourceConfiguration'', JDict [(JStr ''SourceToken'', JStr ''VS1'')]),
                   (JStr ''token'', JStr ''P2'')]]"
  by (simp_all add: media_two_profiles_def serialize_obj_def example_lib_def profile_def)

text \<open>A camera that gives the stream address of the first profile and refuses the second.\<close>

theorem two_profiles_two_stream_uris_witness:
  "run_stream_uris (main example_lib (Inr camera_two_profiles)) =
     Some [(JStr ''P1'', JDict [(JStr ''Uri'', JStr ''rtsp://192.168.1.68/1'')]),
           (JStr ''P2'',
            JDict [(JStr ''error'', JStr ''Profile token does not exist''),
                   (JStr ''traceback'',
                    JStr ''Traceback (most recent call last): Profile token does not exist'')])]"
proof -
  have m: "create_media_service camera_two_profiles 0 = Inr media_two_profiles"
    and m2: "create_media_service camera_two_profiles 1 = Inr media_two_profiles"
    by (simp_all add: camera_two_profiles_def)
  have r: "(\<lambda>args. Inr (JList [profile ''P1'' ''VS1'', profile ''P2'' ''VS1''])) NoArgs =
             (Inr (JList [profile ''P1'' ''VS1'', profile ''P2'' ''VS1'']) :: py_exn + jv)"
    by simp
  have t1: "dict_get [(JStr ''Name'', JStr ''main''),
                      (JStr ''VideoSourceConfiguration'', JDict [(JStr ''SourceToken'', JStr ''VS1'')]),
                      (JStr ''token'', JStr ''P1'')] (JStr ''token'') = Some (JStr ''P1'')"
    and t2: "dict_get [(JStr ''Name'', JStr ''main''),
                       (JStr ''VideoSourceConfiguration'', JDict [(JStr ''SourceToken'', JStr ''VS1'')]),
                       (JStr ''token'', JStr ''P2'')] (JStr ''token'') = Some (JStr ''P2'')"
    by simp_all
  note t = two_profiles_two_stream_uris
    [OF m two_profiles_example(1) r disjI1 [OF two_profiles_example(2)] t1 t2,
     THEN conjunct1, THEN spec, THEN mp, OF m2]
  from t show ?thesis
    by (simp add: media_two_profiles_def stream_request_def serialize_obj_def example_lib_def)
qed

text \<open>
  C9 as it is worded fails at a camera that gives its media service for the catalogue and
  refuses it for the stream pass: \<open>GetProfiles\<close> has succeeded with the two profiles, and
  the report has no \<open>stream_uris\<close>.
\<close>

theorem no_stream_uris_counterexample:
  "report_entry (main example_lib (Inr camera_media_once)) ''media'' ''GetProfiles'' =
     Some (JDict [(JStr ''result'', JList [profile ''P1'' ''VS1'', profile ''P2'' ''VS1''])]) \<and>
   run_stream_uris (main example_lib (Inr camera_media_once)) = None \<and>
   run_errors (main example_lib (Inr camera_media_once)) =
     Some [JDict [(JStr ''stage'', JStr ''GetStreamUri''),
                  (JStr ''error'', JStr ''Connection refused''),
                  (JStr ''traceback'', JStr ''Traceback (most recent call last): Connection refused'')]]"
proof -
  have m: "create_media_service camera_media_once 0 = Inr media_two_profiles"
    and m2: "create_media_service camera_media_once 1 = Inl (OtherError ''Connection refused'')"
    and d: "devicemgmt camera_media_once = Inr (answering [])"
    by (simp_all add: camera_media_once_def)
  have r: "(\<lambda>args. Inr (JList [profile ''P1'' ''VS1'', profile ''P2'' ''VS1''])) NoArgs =
             (Inr (JList [profile ''P1'' ''VS1'', profile ''P2'' ''VS1'']) :: py_exn + jv)"
    by simp
  have t1: "dict_get [(JStr ''Name'', JStr ''main''),
                      (JStr ''VideoSourceConfiguration'', JDict [(JStr ''SourceToken'', JStr ''VS1'')]),
                      (JStr ''token'', JStr ''P1'')] (JStr ''token'') = Some (JStr ''P1'')"
    and t2: "dict_get [(JStr ''Name'', JStr ''main''),
                       (JStr ''VideoSourceConfiguration'', JDict [(JStr ''SourceToken'', JStr ''VS1'')]),
                       (JStr ''token'', JStr ''P2'')] (JStr ''token'') = Some (JStr ''P2'')"
    by simp_all
  have f: "found_profiles example_lib camera_media_once = [JStr ''P1'', JStr ''P2'']"
    by (rule found_profiles_two [OF m two_profiles_example(1) r disjI1 [OF two_profiles_example(2)] t1 t2])
  have c: "service_creators camera_media_once ''media'' = Some (Inr media_two_profiles)"
    by (simp add: service_creators_def m)
  have g: "(''media'', [(''GetProfiles'', []), (''GetServiceCapabilities'', [])]) \<in> set SERVICE_METHODS"
    by (simp add: SERVICE_METHODS_def)
  from report_entry_main [OF g c, of "''GetProfiles''" "[]" example_lib]
  have 1: "report_entry (main example_lib (Inr camera_media_once)) ''media'' ''GetProfiles'' =
     Some (JDict [(JStr ''result'', JList [profile ''P1'' ''VS1'', profile ''P2'' ''VS1''])])"
    by (simp add: safe_call_def media_two_profiles_def serialize_obj_def example_lib_def)
  have 2: "run_stream_uris (main example_lib (Inr camera_media_once)) = None"
    by (rule main_stream_refused(1) [OF f m2])
  from main_stream_refused(2) [OF f m2]
  have 3: "run_errors (main example_lib (Inr camera_media_once)) =
     Some [JDict [(JStr ''stage'', JStr ''GetStreamUri''),
                  (JStr ''error'', JStr ''Connection refused''),
                  (JStr ''traceback'', JStr ''Traceback (most recent call last): Connection refused'')]]"
    by (simp add: get_services_stage_def initial_summary_def d stage_error_def example_lib_def)
  from 1 2 3 show ?thesis by simp
qed

end
